theory Spec2Isabelle
  imports Complex_Main "HOL-Library.Multiset" "HOL-Library.Sublist" "HOL-Library.Char_ord"
    "HOL-Library.List_Lexorder"
begin

section \<open>Conventions\<close>

text \<open>
  The development embeds four parts of the telemetry pipeline: the bottleneck detector
  (\<^verbatim>\<open>analysis/bottleneck_detector.py\<close>), the aggregator and the collection scheduler
  (\<^verbatim>\<open>collectors/aggregator.py\<close>) and the SQLite store (\<^verbatim>\<open>collectors/storage.py\<close>).

  Numbers. Python's unbounded \<^verbatim>\<open>int\<close> is \<^typ>\<open>int\<close>. A Python \<^verbatim>\<open>float\<close>, and a
  field that may hold either an int or a float, is read as a \<^typ>\<open>real\<close>: true division
  \<^verbatim>\<open>/\<close> is division of reals, so the rounding of IEEE doubles, \<^verbatim>\<open>nan\<close> and \<^verbatim>\<open>inf\<close> are
  outside the model.

  Clocks. \<^verbatim>\<open>time.time()\<close> and \<^verbatim>\<open>datetime.utcnow().isoformat()\<close> are inputs of the
  function that reads them.
\<close>

section \<open>Bottleneck detector\<close>

subsection \<open>Data\<close>

datatype BottleneckType = CPU | MEMORY | NETWORK | CONNECTION_LIMIT | BACKEND | CONFIGURATION

datatype Severity = LOW | MEDIUM | HIGH | CRITICAL



text \<open>
  A value of an evidence dictionary: a number, a list of numbers (the connection trend) or
  \<^verbatim>\<open>None\<close> (a percentile column that is present and NULL).
\<close>

datatype evidence_value = ENone | ENum real | ENumList "real list"

text \<open>
  A description is an f-string. Its rendering to text is not modelled: the description is
  kept as the list of its parts, a literal piece, an interpolated number with its format
  specification (\<^verbatim>\<open>''.1f''\<close>, or empty), or \<^verbatim>\<open>host_type.title()\<close>.
\<close>

datatype fpart = Lit string | Fmt real string | Title string

record Bottleneck =
  btype :: BottleneckType
  severity :: Severity
  description :: "fpart list"
  evidence :: "(string \<times> evidence_value) list"
  recommendation :: string
  affected_component :: string

text \<open>
  One row of a series, as the store returns it: the text column \<^verbatim>\<open>host_type\<close> (\<open>None\<close>
  when the key is absent) and the numeric columns by name, where \<open>None\<close> is an absent key,
  \<open>Some None\<close> a key holding \<^verbatim>\<open>None\<close> (SQL NULL) and \<open>Some (Some v)\<close> a number.
\<close>

record sample =
  host_type :: "string option"
  num :: "string \<Rightarrow> real option option"

text \<open>\<^verbatim>\<open>row.get(k, d) or d\<close>: the default for an absent key, for \<^verbatim>\<open>None\<close> and for zero.\<close>

definition get_or :: "sample \<Rightarrow> string \<Rightarrow> real \<Rightarrow> real" where
  "get_or row k d =
     (case num row k of
        None \<Rightarrow> d
      | Some None \<Rightarrow> d
      | Some (Some v) \<Rightarrow> (if v = 0 then d else v))"

text \<open>\<^verbatim>\<open>row.get(k, 0)\<close> as an evidence value.\<close>

definition get_evidence :: "sample \<Rightarrow> string \<Rightarrow> evidence_value" where
  "get_evidence row k =
     (case num row k of
        None \<Rightarrow> ENum 0
      | Some None \<Rightarrow> ENone
      | Some (Some v) \<Rightarrow> ENum v)"

text \<open>\<^verbatim>\<open>str.lower()\<close> on ASCII text, and the substring test \<^verbatim>\<open>needle in text\<close>.\<close>

definition lower_char :: "char \<Rightarrow> char" where
  "lower_char c =
     (case map_of (zip ''ABCDEFGHIJKLMNOPQRSTUVWXYZ'' ''abcdefghijklmnopqrstuvwxyz'') c of
        None \<Rightarrow> c
      | Some l \<Rightarrow> l)"

definition lower :: "string \<Rightarrow> string" where
  "lower s = map lower_char s"

fun has_substring :: "string \<Rightarrow> string \<Rightarrow> bool" where
  "has_substring needle [] = (needle = [])"
| "has_substring needle (c # cs) = (prefix needle (c # cs) \<or> has_substring needle cs)"

subsection \<open>Thresholds\<close>

definition CPU_HIGH_THRESHOLD :: real where "CPU_HIGH_THRESHOLD = 80"
definition CPU_CRITICAL_THRESHOLD :: real where "CPU_CRITICAL_THRESHOLD = 95"
definition MEMORY_LOW_THRESHOLD :: real where "MEMORY_LOW_THRESHOLD = 10"
definition MEMORY_CRITICAL_THRESHOLD :: real where "MEMORY_CRITICAL_THRESHOLD = 5"
definition CONNECTION_SATURATION_HIGH :: real where "CONNECTION_SATURATION_HIGH = 70"
definition CONNECTION_SATURATION_CRITICAL :: real where "CONNECTION_SATURATION_CRITICAL = 90"
definition QUEUE_WARNING_THRESHOLD :: real where "QUEUE_WARNING_THRESHOLD = 10"
definition ERROR_RATE_WARNING :: real where "ERROR_RATE_WARNING = 1"
definition ERROR_RATE_HIGH :: real where "ERROR_RATE_HIGH = 5"

lemmas thresholds =
  CPU_HIGH_THRESHOLD_def CPU_CRITICAL_THRESHOLD_def MEMORY_LOW_THRESHOLD_def
  MEMORY_CRITICAL_THRESHOLD_def CONNECTION_SATURATION_HIGH_def
  CONNECTION_SATURATION_CRITICAL_def QUEUE_WARNING_THRESHOLD_def ERROR_RATE_WARNING_def
  ERROR_RATE_HIGH_def

subsection \<open>Recommendation texts\<close>

definition rec_connection_critical :: string where
  "rec_connection_critical =
     ''Increase listener connection_limit in Octavia. '' @
     ''Maximum supported is 1,000,000. Also consider '' @
     ''adding more amphora instances.''"

text \<open>The source's literal is not an f-string: \<^verbatim>\<open>{slim}\<close> stays as it is.\<close>

definition rec_connection_high :: string where
  "rec_connection_high =
     ''Consider increasing connection_limit before '' @
     ''it becomes critical. Current limit: {slim}''"

definition rec_queue :: string where
  "rec_queue =
     ''Backend servers may be overloaded. Consider adding '' @
     ''more backend members or increasing their capacity.''"

definition rec_error_high :: string where
  "rec_error_high =
     ''Investigate error causes. Check HAProxy logs, '' @
     ''backend health, and timeout settings.''"

definition rec_error_medium :: string where
  "rec_error_medium = ''Monitor error rate and investigate causes.''"

definition rec_trend :: string where
  "rec_trend =
     ''Connection count is growing steadily. '' @
     ''Monitor for potential connection leaks or '' @
     ''insufficient connection timeout settings.''"

definition rec_cpu_critical :: "string \<Rightarrow> string" where
  "rec_cpu_critical h =
     ''Increase '' @ h @ '' CPU capacity. For amphora, '' @
     ''use a larger flavor or add instances. For backends, '' @
     ''scale out the pool.''"

definition rec_cpu_high :: "string \<Rightarrow> string" where
  "rec_cpu_high h =
     ''Monitor '' @ h @ '' CPU closely. Consider '' @
     ''scaling before saturation.''"

definition rec_memory_critical :: "string \<Rightarrow> string" where
  "rec_memory_critical h =
     ''Increase '' @ h @ '' memory immediately. '' @
     ''For amphora, reduce SSL session cache or '' @
     ''connection limits.''"

definition rec_memory_high :: "string \<Rightarrow> string" where
  "rec_memory_high h =
     ''Monitor '' @ h @ '' memory. Consider scaling '' @
     ''before it becomes critical.''"

definition rec_failure :: string where
  "rec_failure =
     ''Investigate failure causes. Check load balancer '' @
     ''logs, backend health, and timeout settings.''"

definition rec_p99 :: string where
  "rec_p99 =
     ''Backend response times are high. Optimize backend '' @
     ''application or add more backend instances.''"

subsection \<open>The passes of \<^verbatim>\<open>_analyze_haproxy\<close>\<close>

text \<open>
  Each block of the method appends to \<^verbatim>\<open>self.bottlenecks\<close>; a block is modelled as the
  list of the findings it appends, in order. All blocks but the last read \<^verbatim>\<open>stats[-1]\<close>.
\<close>

definition connection_limit_analysis :: "sample \<Rightarrow> Bottleneck list" where
  "connection_limit_analysis latest =
     (let scur = get_or latest ''scur'' 0;
          slim = get_or latest ''slim'' 0
      in if slim > 0 then
           (let saturation = (scur / slim) * 100
            in if saturation \<ge> CONNECTION_SATURATION_CRITICAL then
                 [\<lparr>btype = CONNECTION_LIMIT, severity = CRITICAL,
                   description =
                     [Lit ''Connection limit nearly reached: '', Fmt scur '''', Lit ''/'',
                      Fmt slim '''', Lit '' ('', Fmt saturation ''.1f'', Lit ''%)''],
                   evidence =
                     [(''current_connections'', ENum scur), (''max_connections'', ENum slim),
                      (''saturation_percent'', ENum saturation)],
                   recommendation = rec_connection_critical,
                   affected_component = ''amphora/haproxy''\<rparr>]
               else if saturation \<ge> CONNECTION_SATURATION_HIGH then
                 [\<lparr>btype = CONNECTION_LIMIT, severity = HIGH,
                   description =
                     [Lit ''Connection limit approaching: '', Fmt scur '''', Lit ''/'',
                      Fmt slim '''', Lit '' ('', Fmt saturation ''.1f'', Lit ''%)''],
                   evidence =
                     [(''current_connections'', ENum scur), (''max_connections'', ENum slim),
                      (''saturation_percent'', ENum saturation)],
                   recommendation = rec_connection_high,
                   affected_component = ''amphora/haproxy''\<rparr>]
               else [])
         else [])"

definition queue_analysis :: "sample \<Rightarrow> Bottleneck list" where
  "queue_analysis latest =
     (let qcur = get_or latest ''qcur'' 0
      in if qcur > QUEUE_WARNING_THRESHOLD then
           [\<lparr>btype = BACKEND, severity = (if qcur > 50 then HIGH else MEDIUM),
             description = [Lit ''Requests queuing: '', Fmt qcur '''', Lit '' in queue''],
             evidence = [(''queue_current'', ENum qcur)],
             recommendation = rec_queue,
             affected_component = ''backend_servers''\<rparr>]
         else [])"

definition error_rate_analysis :: "sample \<Rightarrow> Bottleneck list" where
  "error_rate_analysis latest =
     (let stot = get_or latest ''stot'' 0;
          ereq = get_or latest ''ereq'' 0
      in if stot > 0 then
           (let error_rate = (ereq / stot) * 100
            in if error_rate \<ge> ERROR_RATE_HIGH then
                 [\<lparr>btype = CONFIGURATION, severity = HIGH,
                   description = [Lit ''High error rate: '', Fmt error_rate ''.2f'', Lit ''%''],
                   evidence =
                     [(''total_requests'', ENum stot), (''errors'', ENum ereq),
                      (''error_rate_percent'', ENum error_rate)],
                   recommendation = rec_error_high,
                   affected_component = ''amphora/haproxy''\<rparr>]
               else if error_rate \<ge> ERROR_RATE_WARNING then
                 [\<lparr>btype = CONFIGURATION, severity = MEDIUM,
                   description =
                     [Lit ''Elevated error rate: '', Fmt error_rate ''.2f'', Lit ''%''],
                   evidence =
                     [(''total_requests'', ENum stot), (''errors'', ENum ereq),
                      (''error_rate_percent'', ENum error_rate)],
                   recommendation = rec_error_medium,
                   affected_component = ''amphora/haproxy''\<rparr>]
               else [])
         else [])"

text \<open>
  The trend block: \<^verbatim>\<open>stats[-10:]\<close> is the last ten rows, and \<^verbatim>\<open>all(...)\<close> ranges over
  \<^verbatim>\<open>range(len(recent_scur) - 1)\<close>.
\<close>

definition recent_scur :: "sample list \<Rightarrow> real list" where
  "recent_scur stats = map (\<lambda>s. get_or s ''scur'' 0) (drop (length stats - 10) stats)"

definition connection_trend_analysis :: "sample list \<Rightarrow> Bottleneck list" where
  "connection_trend_analysis stats =
     (if length stats \<ge> 10 then
        (let recent = recent_scur stats
         in if list_all (\<lambda>i. recent ! i \<le> recent ! (i + 1)) [0 ..< length recent - 1]
            then
              [\<lparr>btype = CONNECTION_LIMIT, severity = MEDIUM,
                description = [Lit ''Connections continuously increasing''],
                evidence = [(''connection_trend'', ENumList recent)],
                recommendation = rec_trend,
                affected_component = ''amphora/haproxy''\<rparr>]
            else [])
      else [])"

text \<open>The detector object: its only attribute is the list of findings.\<close>

record detector =
  bottlenecks :: "Bottleneck list"

definition append_all :: "detector \<Rightarrow> Bottleneck list \<Rightarrow> detector" where
  "append_all d bs = d\<lparr>bottlenecks := bottlenecks d @ bs\<rparr>"

definition analyze_haproxy :: "detector \<Rightarrow> sample list \<Rightarrow> detector" where
  "analyze_haproxy d stats =
     (if stats = [] then d
      else
        (let latest = last stats;
             d1 = append_all d (connection_limit_analysis latest);
             d2 = append_all d1 (queue_analysis latest);
             d3 = append_all d2 (error_rate_analysis latest)
         in append_all d3 (connection_trend_analysis stats)))"

subsection \<open>System metrics\<close>

definition cpu_analysis :: "sample \<Rightarrow> string \<Rightarrow> Bottleneck list" where
  "cpu_analysis latest h =
     (let cpu_count = get_or latest ''cpu_count'' 1;
          load = get_or latest ''load_1'' 0;
          cpu_saturation = (load / cpu_count) * 100
      in if cpu_saturation \<ge> CPU_CRITICAL_THRESHOLD then
           [\<lparr>btype = CPU, severity = CRITICAL,
             description =
               [Title h, Lit '' CPU saturated: '', Lit ''load '', Fmt load ''.2f'', Lit '' on '',
                Fmt cpu_count '''', Lit '' CPUs''],
             evidence =
               [(''load_average'', ENum load), (''cpu_count'', ENum cpu_count),
                (''saturation_percent'', ENum cpu_saturation)],
             recommendation = rec_cpu_critical h,
             affected_component = h\<rparr>]
         else if cpu_saturation \<ge> CPU_HIGH_THRESHOLD then
           [\<lparr>btype = CPU, severity = HIGH,
             description =
               [Title h, Lit '' CPU high: '', Lit ''load '', Fmt load ''.2f'', Lit '' on '',
                Fmt cpu_count '''', Lit '' CPUs''],
             evidence =
               [(''load_average'', ENum load), (''cpu_count'', ENum cpu_count),
                (''saturation_percent'', ENum cpu_saturation)],
             recommendation = rec_cpu_high h,
             affected_component = h\<rparr>]
         else [])"

text \<open>\<^verbatim>\<open>x // 1024\<close> is the floor of the quotient.\<close>

definition floordiv_1024 :: "real \<Rightarrow> real" where
  "floordiv_1024 x = of_int \<lfloor>x / 1024\<rfloor>"

definition memory_analysis :: "sample \<Rightarrow> string \<Rightarrow> Bottleneck list" where
  "memory_analysis latest h =
     (let mem_total = get_or latest ''mem_total'' 1;
          mem_free = get_or latest ''mem_free'' 0;
          mem_free_pct = (mem_free / mem_total) * 100
      in if mem_free_pct < MEMORY_CRITICAL_THRESHOLD then
           [\<lparr>btype = MEMORY, severity = CRITICAL,
             description =
               [Title h, Lit '' memory critical: '', Lit ''only '', Fmt mem_free_pct ''.1f'',
                Lit ''% free''],
             evidence =
               [(''total_mb'', ENum (floordiv_1024 mem_total)),
                (''free_mb'', ENum (floordiv_1024 mem_free)),
                (''free_percent'', ENum mem_free_pct)],
             recommendation = rec_memory_critical h,
             affected_component = h\<rparr>]
         else if mem_free_pct < MEMORY_LOW_THRESHOLD then
           [\<lparr>btype = MEMORY, severity = HIGH,
             description =
               [Title h, Lit '' memory low: '', Lit ''only '', Fmt mem_free_pct ''.1f'',
                Lit ''% free''],
             evidence =
               [(''total_mb'', ENum (floordiv_1024 mem_total)),
                (''free_mb'', ENum (floordiv_1024 mem_free)),
                (''free_percent'', ENum mem_free_pct)],
             recommendation = rec_memory_high h,
             affected_component = h\<rparr>]
         else [])"

definition analyze_host_metrics :: "detector \<Rightarrow> sample list \<Rightarrow> string \<Rightarrow> detector" where
  "analyze_host_metrics d metrics h =
     (if metrics = [] then d
      else
        (let latest = last metrics;
             d1 = append_all d (cpu_analysis latest h)
         in append_all d1 (memory_analysis latest h)))"

text \<open>\<^verbatim>\<open>m.get('host_type', '')\<close>.\<close>

definition host_type_of :: "sample \<Rightarrow> string" where
  "host_type_of m = (case host_type m of None \<Rightarrow> [] | Some h \<Rightarrow> h)"

definition analyze_system_metrics :: "detector \<Rightarrow> sample list \<Rightarrow> detector" where
  "analyze_system_metrics d metrics =
     (if metrics = [] then d
      else
        (let amphora_metrics =
               filter (\<lambda>m. has_substring ''amphora'' (lower (host_type_of m))) metrics;
             backend_metrics =
               filter (\<lambda>m. has_substring ''backend'' (lower (host_type_of m))) metrics;
             d1 = analyze_host_metrics d amphora_metrics ''amphora''
         in analyze_host_metrics d1 backend_metrics ''backend''))"

subsection \<open>Load-generator statistics\<close>

definition failure_rate_analysis :: "sample \<Rightarrow> Bottleneck list" where
  "failure_rate_analysis latest =
     (let num_requests = get_or latest ''num_requests'' 0;
          num_failures = get_or latest ''num_failures'' 0
      in if num_requests > 0 then
           (let failure_rate = (num_failures / num_requests) * 100
            in if failure_rate \<ge> 10 then
                 [\<lparr>btype = CONFIGURATION, severity = CRITICAL,
                   description =
                     [Lit ''High request failure rate: '', Fmt failure_rate ''.1f'', Lit ''%''],
                   evidence =
                     [(''requests'', ENum num_requests), (''failures'', ENum num_failures),
                      (''failure_rate'', ENum failure_rate)],
                   recommendation = rec_failure,
                   affected_component = ''load_balancer''\<rparr>]
               else [])
         else [])"

definition response_time_analysis :: "sample \<Rightarrow> Bottleneck list" where
  "response_time_analysis latest =
     (let p99 = get_or latest ''p99'' 0
      in if p99 > 5000 then
           [\<lparr>btype = BACKEND, severity = HIGH,
             description = [Lit ''High p99 response time: '', Fmt p99 '''', Lit ''ms''],
             evidence =
               [(''p99_ms'', ENum p99), (''p95_ms'', get_evidence latest ''p95''),
                (''p90_ms'', get_evidence latest ''p90'')],
             recommendation = rec_p99,
             affected_component = ''backend_servers''\<rparr>]
         else [])"

definition analyze_locust_stats :: "detector \<Rightarrow> sample list \<Rightarrow> detector" where
  "analyze_locust_stats d stats =
     (if stats = [] then d
      else
        (let latest = last stats;
             d1 = append_all d (failure_rate_analysis latest)
         in append_all d1 (response_time_analysis latest)))"

text \<open>\<^verbatim>\<open>_analyze_correlations\<close> is \<^verbatim>\<open>pass\<close>.\<close>

definition analyze_correlations :: "detector \<Rightarrow> sample list \<Rightarrow> sample list \<Rightarrow> detector" where
  "analyze_correlations d haproxy_stats system_metrics = d"

subsection \<open>\<^verbatim>\<open>analyze\<close> and \<^verbatim>\<open>get_summary\<close>\<close>

fun severity_order :: "Severity \<Rightarrow> nat" where
  "severity_order CRITICAL = 0"
| "severity_order HIGH = 1"
| "severity_order MEDIUM = 2"
| "severity_order LOW = 3"

text \<open>
  The findings of all passes in detection order: the state of \<^verbatim>\<open>self.bottlenecks\<close> just
  before the sort. \<^verbatim>\<open>locust_stats\<close> is optional; \<^verbatim>\<open>None\<close> and the empty list are both falsy.
\<close>

definition detect :: "detector \<Rightarrow> sample list \<Rightarrow> sample list \<Rightarrow> sample list option \<Rightarrow> detector" where
  "detect d haproxy_stats system_metrics locust_stats =
     (let d0 = d\<lparr>bottlenecks := []\<rparr>;
          d1 = (if haproxy_stats \<noteq> [] then analyze_haproxy d0 haproxy_stats else d0);
          d2 = (if system_metrics \<noteq> [] then analyze_system_metrics d1 system_metrics else d1);
          d3 = (case locust_stats of
                  None \<Rightarrow> d2
                | Some ls \<Rightarrow> if ls \<noteq> [] then analyze_locust_stats d2 ls else d2)
      in if haproxy_stats \<noteq> [] \<and> system_metrics \<noteq> []
         then analyze_correlations d3 haproxy_stats system_metrics else d3)"

text \<open>
  \<^verbatim>\<open>list.sort(key=...)\<close> is a stable sort; so is \<^const>\<open>sort_key\<close>. The method returns
  \<^verbatim>\<open>self.bottlenecks\<close>: the result of a call is \<open>bottlenecks (analyze d h s l)\<close>.
\<close>

definition analyze :: "detector \<Rightarrow> sample list \<Rightarrow> sample list \<Rightarrow> sample list option \<Rightarrow> detector" where
  "analyze d haproxy_stats system_metrics locust_stats =
     (let d4 = detect d haproxy_stats system_metrics locust_stats
      in d4\<lparr>bottlenecks := sort_key (\<lambda>b. severity_order (severity b)) (bottlenecks d4)\<rparr>)"




subsection \<open>Kinds of finding\<close>

text \<open>
  The two findings of type \<^verbatim>\<open>CONNECTION_LIMIT\<close> are told apart by their evidence: a
  connection-saturation finding carries \<^verbatim>\<open>saturation_percent\<close>, a connection-growth finding
  carries \<^verbatim>\<open>connection_trend\<close>. A memory-pressure finding has type \<^verbatim>\<open>MEMORY\<close>.
\<close>

definition is_connection_saturation :: "Bottleneck \<Rightarrow> bool" where
  "is_connection_saturation b \<longleftrightarrow>
     btype b = CONNECTION_LIMIT \<and> map_of (evidence b) ''saturation_percent'' \<noteq> None"

definition is_connection_growth :: "Bottleneck \<Rightarrow> bool" where
  "is_connection_growth b \<longleftrightarrow>
     btype b = CONNECTION_LIMIT \<and> map_of (evidence b) ''connection_trend'' \<noteq> None"

definition is_memory_pressure :: "Bottleneck \<Rightarrow> bool" where
  "is_memory_pressure b \<longleftrightarrow> btype b = MEMORY"

text \<open>
  The session count of a row, as the claims about the trend speak of it: the number under
  \<^verbatim>\<open>scur\<close>, and 0 for a row without the key or with \<^verbatim>\<open>None\<close> under it. It is read
  from the row itself, not through the detector's own accessors.
\<close>

definition session_count :: "sample \<Rightarrow> real" where
  "session_count row = (case num row ''scur'' of Some (Some v) \<Rightarrow> v | _ \<Rightarrow> 0)"

section \<open>Aggregator\<close>

text \<open>
  A counter dictionary (\<^verbatim>\<open>Dict[str, int]\<close>) is an association list in insertion order;
  \<^verbatim>\<open>d[k]\<close> and \<^verbatim>\<open>k in d\<close> go through \<^const>\<open>map_of\<close>. The dictionary of rates that
  \<^verbatim>\<open>calculate_rates\<close> builds is a map.
\<close>

type_synonym counters = "(string \<times> int) list"

text \<open>
  One iteration of \<^verbatim>\<open>for key in current\<close>. The key comes from \<open>current\<close>, so the lookup
  \<^verbatim>\<open>current[key]\<close> finds it.
\<close>

definition rate_step ::
  "counters \<Rightarrow> counters \<Rightarrow> real \<Rightarrow> string \<Rightarrow> (string \<Rightarrow> real option) \<Rightarrow> (string \<Rightarrow> real option)"
where
  "rate_step current previous interval_seconds key rates =
     (case map_of previous key of
        None \<Rightarrow> rates
      | Some p \<Rightarrow>
          (case map_of current key of
             None \<Rightarrow> rates
           | Some c \<Rightarrow>
               (let delta = c - p
                in if delta \<ge> 0
                   then rates(key @ ''_per_sec'' \<mapsto> real_of_int delta / interval_seconds)
                   else rates)))"

definition calculate_rates :: "counters \<Rightarrow> counters \<Rightarrow> real \<Rightarrow> (string \<Rightarrow> real option)" where
  "calculate_rates current previous interval_seconds =
     (if interval_seconds \<le> 0 then Map.empty
      else fold (rate_step current previous interval_seconds) (map fst current) Map.empty)"

text \<open>
  A raw HAProxy stats dictionary, as \<^verbatim>\<open>csv.DictReader\<close> yields it: a cell is a string, or
  \<^verbatim>\<open>None\<close> in a short line; callers may also pass integers.
\<close>

datatype raw_value = RNone | RStr string | RInt int

type_synonym raw_stat = "(string \<times> raw_value) list"

datatype py_error = ValueError | OverflowError

text \<open>
  \<^verbatim>\<open>int(s.get(k, 0) or 0)\<close>. Python's \<^verbatim>\<open>int\<close> on a string is a parameter of the model,
  \<open>parse\<close>: \<open>None\<close> where \<^verbatim>\<open>int\<close> raises \<^verbatim>\<open>ValueError\<close>.
\<close>

definition int_field :: "(string \<Rightarrow> int option) \<Rightarrow> raw_stat \<Rightarrow> string \<Rightarrow> py_error + int" where
  "int_field parse s k =
     (case map_of s k of
        None \<Rightarrow> Inr 0
      | Some RNone \<Rightarrow> Inr 0
      | Some (RInt n) \<Rightarrow> Inr n
      | Some (RStr t) \<Rightarrow>
          (if t = [] then Inr 0
           else (case parse t of None \<Rightarrow> Inl ValueError | Some n \<Rightarrow> Inr n)))"

text \<open>\<^verbatim>\<open>sum(int(s.get(k, 0) or 0) for s in rows)\<close>: the first \<^verbatim>\<open>ValueError\<close> ends the sum.\<close>

fun sum_field :: "(string \<Rightarrow> int option) \<Rightarrow> raw_stat list \<Rightarrow> string \<Rightarrow> py_error + int" where
  "sum_field parse [] k = Inr 0"
| "sum_field parse (s # rows) k =
     (case int_field parse s k of
        Inl e \<Rightarrow> Inl e
      | Inr n \<Rightarrow> (case sum_field parse rows k of Inl e \<Rightarrow> Inl e | Inr m \<Rightarrow> Inr (n + m)))"

text \<open>
  The dictionary literal \<^verbatim>\<open>current\<close>: the keys summed over the frontends, in the order of
  the literal, then \<^verbatim>\<open>qcur\<close> summed over the backends.
\<close>

fun sum_fields ::
  "(string \<Rightarrow> int option) \<Rightarrow> raw_stat list \<Rightarrow> string list \<Rightarrow> py_error + counters"
where
  "sum_fields parse rows [] = Inr []"
| "sum_fields parse rows (k # ks) =
     (case sum_field parse rows k of
        Inl e \<Rightarrow> Inl e
      | Inr n \<Rightarrow>
          (case sum_fields parse rows ks of Inl e \<Rightarrow> Inl e | Inr cs \<Rightarrow> Inr ((k, n) # cs)))"

definition frontend_keys :: "string list" where
  "frontend_keys =
     [''scur'', ''slim'', ''stot'', ''bin'', ''bout'', ''req_tot'', ''ereq'', ''dreq'',
      ''hrsp_2xx'', ''hrsp_4xx'', ''hrsp_5xx'']"

definition aggregate_counters ::
  "(string \<Rightarrow> int option) \<Rightarrow> raw_stat list \<Rightarrow> raw_stat list \<Rightarrow> py_error + counters"
where
  "aggregate_counters parse frontends backends =
     (case sum_fields parse frontends frontend_keys of
        Inl e \<Rightarrow> Inl e
      | Inr cs \<Rightarrow>
          (case sum_field parse backends ''qcur'' of
             Inl e \<Rightarrow> Inl e
           | Inr q \<Rightarrow> Inr (cs @ [(''qcur'', q)])))"

text \<open>
  The state of a \<^verbatim>\<open>MetricsAggregator\<close> that its methods read and write. (\<^verbatim>\<open>storage\<close> and
  \<^verbatim>\<open>run_id\<close> are set by the constructor and used by neither method.)
\<close>

record aggregator =
  prev_haproxy_stats :: "counters option"
  prev_timestamp :: "real option"

record derived_metrics =
  connection_saturation_pct :: real
  error_rate_pct :: real
  healthy_servers :: nat
  total_servers :: nat
  requests_per_sec :: real
  throughput_in_bps :: real
  throughput_out_bps :: real

record aggregate_summary =
  frontend_count :: nat
  backend_count :: nat
  server_count :: nat

record haproxy_aggregate =
  utc_timestamp :: string
  counters :: counters
  rates :: "string \<Rightarrow> real option"
  derived :: derived_metrics
  summary :: aggregate_summary

text \<open>\<^verbatim>\<open>current[k]\<close> for a key of the literal, and \<^verbatim>\<open>rates.get(k, 0)\<close>.\<close>

definition counter :: "counters \<Rightarrow> string \<Rightarrow> int" where
  "counter current k = (case map_of current k of None \<Rightarrow> 0 | Some v \<Rightarrow> v)"

definition rate_or_0 :: "(string \<Rightarrow> real option) \<Rightarrow> string \<Rightarrow> real" where
  "rate_or_0 rs k = (case rs k of None \<Rightarrow> 0 | Some v \<Rightarrow> v)"

text \<open>
  \<^verbatim>\<open>aggregate_haproxy_stats\<close>. \<open>now\<close> is the reading of \<^verbatim>\<open>time.time()\<close> and \<open>stamp\<close> the
  text of \<^verbatim>\<open>datetime.utcnow().isoformat()\<close>. The previous sample is used when both
  attributes are truthy: the dictionary not \<^verbatim>\<open>None\<close> and not empty, the time not \<^verbatim>\<open>None\<close>
  and not zero. A \<^verbatim>\<open>ValueError\<close> leaves the method before it writes the attributes.
\<close>

definition aggregate_haproxy_stats ::
  "(string \<Rightarrow> int option) \<Rightarrow> aggregator \<Rightarrow> real \<Rightarrow> string \<Rightarrow> raw_stat list \<Rightarrow>
     py_error + (haproxy_aggregate \<times> aggregator)"
where
  "aggregate_haproxy_stats parse a now stamp stats =
     (let frontends = filter (\<lambda>s. map_of s ''svname'' = Some (RStr ''FRONTEND'')) stats;
          backends = filter (\<lambda>s. map_of s ''svname'' = Some (RStr ''BACKEND'')) stats;
          servers =
            filter (\<lambda>s. map_of s ''svname'' \<noteq> Some (RStr ''FRONTEND'') \<and>
                        map_of s ''svname'' \<noteq> Some (RStr ''BACKEND'')) stats
      in case aggregate_counters parse frontends backends of
           Inl e \<Rightarrow> Inl e
         | Inr current \<Rightarrow>
             (let rates =
                    (case (prev_haproxy_stats a, prev_timestamp a) of
                       (Some prev, Some t) \<Rightarrow>
                         (if prev \<noteq> [] \<and> t \<noteq> 0
                          then calculate_rates current prev (now - t) else Map.empty)
                     | _ \<Rightarrow> Map.empty);
                  a' = a\<lparr>prev_haproxy_stats := Some current, prev_timestamp := Some now\<rparr>;
                  saturation =
                    (if counter current ''slim'' > 0
                     then (real_of_int (counter current ''scur'') /
                           real_of_int (counter current ''slim'')) * 100
                     else 0);
                  error_rate =
                    (if counter current ''stot'' > 0
                     then (real_of_int (counter current ''ereq'') /
                           real_of_int (counter current ''stot'')) * 100
                     else 0);
                  healthy_servers =
                    length (filter (\<lambda>s. map_of s ''status'' = Some (RStr ''UP'')) servers);
                  total_servers = length servers
              in Inr (\<lparr>utc_timestamp = stamp,
                        counters = current,
                        rates = rates,
                        derived =
                          \<lparr>connection_saturation_pct = saturation,
                           error_rate_pct = error_rate,
                           healthy_servers = healthy_servers,
                           total_servers = total_servers,
                           requests_per_sec = rate_or_0 rates ''req_tot_per_sec'',
                           throughput_in_bps = rate_or_0 rates ''bin_per_sec'',
                           throughput_out_bps = rate_or_0 rates ''bout_per_sec''\<rparr>,
                        summary =
                          \<lparr>frontend_count = length frontends,
                           backend_count = length backends,
                           server_count = total_servers\<rparr>\<rparr>,
                      a')))"

section \<open>Collection scheduler\<close>

text \<open>
  What a call can raise. \<^verbatim>\<open>except Exception\<close> catches the instances of \<^verbatim>\<open>Exception\<close>;
  \<^verbatim>\<open>SystemExit\<close>, \<^verbatim>\<open>KeyboardInterrupt\<close> and \<^verbatim>\<open>GeneratorExit\<close> derive from
  \<^verbatim>\<open>BaseException\<close> only and pass through. The string is \<^verbatim>\<open>str(e)\<close>.
\<close>

datatype raised = Exception string | BaseException string

text \<open>
  The entry of \<^verbatim>\<open>self._collectors\<close> for one collector. The store callback works on a
  store of type \<open>'s\<close>: it returns the store with the sample written, or raises and leaves
  the store as it found it, as the write operations of the SQLite store do (the connection
  commits only when the body of the \<^verbatim>\<open>with\<close> block has completed).
\<close>

record ('d, 's) collector_config =
  interval :: real
  store_func :: "'d \<Rightarrow> 's \<Rightarrow> raised + 's"

text \<open>
  What one pass through the loop meets: whether the stop event is set when the loop
  condition is tested, the first reading of the clock (\<^verbatim>\<open>start_time\<close>), what \<^verbatim>\<open>collector.collect()\<close>
  returns or raises, and the clock when the body of \<^verbatim>\<open>try\<close> is left (the second reading
  of \<^verbatim>\<open>time.time()\<close> when nothing was raised).
\<close>

record 'd tick =
  stop_set :: bool
  started :: real
  collected :: "raised + 'd"
  ended :: real

text \<open>
  The effects of the loop: the store, the lines given to \<^verbatim>\<open>logger.error\<close> and the timeouts
  given to \<^verbatim>\<open>self._stop_event.wait\<close>, both oldest first.
\<close>

record 's loop_state =
  store :: 's
  error_log :: "string list"
  waits :: "real list"

definition on_exception :: "('d, 's) collector_config \<Rightarrow> string \<Rightarrow> raised \<Rightarrow> 's loop_state \<Rightarrow>
     raised + 's loop_state" where
  "on_exception config name e s =
     (case e of
        BaseException m \<Rightarrow> Inl (BaseException m)
      | Exception m \<Rightarrow>
          Inr (s\<lparr>error_log := error_log s @ [''Collection error in '' @ name @ '': '' @ m],
                 waits := waits s @ [interval config]\<rparr>))"

text \<open>The body of the \<^verbatim>\<open>while\<close> loop; \<open>Inl\<close> is an exception that leaves the loop.\<close>

definition loop_body :: "('d, 's) collector_config \<Rightarrow> string \<Rightarrow> 'd tick \<Rightarrow> 's loop_state \<Rightarrow>
     raised + 's loop_state" where
  "loop_body config name t s =
     (case collected t of
        Inl e \<Rightarrow> on_exception config name e s
      | Inr data \<Rightarrow>
          (case store_func config data (store s) of
             Inl e \<Rightarrow> on_exception config name e s
           | Inr st \<Rightarrow>
               (let elapsed = ended t - started t;
                    sleep_time = max 0 (interval config - elapsed)
                in Inr (s\<lparr>store := st, waits := waits s @ [sleep_time]\<rparr>))))"



section \<open>Store\<close>

text \<open>
  The table \<^verbatim>\<open>haproxy_stats\<close> and the two methods that write and read it. A value bound
  to a column is NULL, an integer or a text.
\<close>

datatype sql_value = Null | Integer int | Text string

text \<open>
  A row: the key columns by name, and the columns from \<^verbatim>\<open>proxy_name\<close> to \<^verbatim>\<open>srv_abrt\<close>
  as a list in the order of the \<^verbatim>\<open>INSERT\<close>. \<^verbatim>\<open>raw_data\<close> is \<^verbatim>\<open>json.dumps(stat)\<close>; the
  rendering is not modelled and the column holds the dictionary.
\<close>

record haproxy_row =
  row_id :: nat
  run_id :: int
  timestamp :: string
  amphora_id :: string
  lb_id :: string
  columns :: "(string \<times> sql_value) list"
  raw_data :: raw_stat

record database =
  haproxy_stats :: "haproxy_row list"

text \<open>\<^verbatim>\<open>_int_or_none(stat.get(k))\<close>: \<^verbatim>\<open>None\<close> for a missing, \<^verbatim>\<open>None\<close> or empty cell and when
  \<^verbatim>\<open>int\<close> raises.\<close>

definition int_or_none :: "(string \<Rightarrow> int option) \<Rightarrow> raw_value option \<Rightarrow> sql_value" where
  "int_or_none parse v =
     (case v of
        None \<Rightarrow> Null
      | Some RNone \<Rightarrow> Null
      | Some (RInt n) \<Rightarrow> Integer n
      | Some (RStr t) \<Rightarrow>
          (if t = [] then Null
           else (case parse t of None \<Rightarrow> Null | Some n \<Rightarrow> Integer n)))"

text \<open>\<^verbatim>\<open>stat.get(k)\<close>, bound as it is.\<close>

definition bound_value :: "raw_value option \<Rightarrow> sql_value" where
  "bound_value v =
     (case v of
        None \<Rightarrow> Null
      | Some RNone \<Rightarrow> Null
      | Some (RInt n) \<Rightarrow> Integer n
      | Some (RStr t) \<Rightarrow> Text t)"

definition int_columns :: "string list" where
  "int_columns =
     [''scur'', ''smax'', ''slim'', ''stot'', ''bin'', ''bout'', ''dreq'', ''ereq'']"

definition int_columns_after_status :: "string list" where
  "int_columns_after_status =
     [''weight'', ''rate'', ''rate_max'', ''req_rate'', ''req_tot'', ''hrsp_1xx'', ''hrsp_2xx'',
      ''hrsp_3xx'', ''hrsp_4xx'', ''hrsp_5xx'', ''qcur'', ''qmax'', ''cli_abrt'', ''srv_abrt'']"

text \<open>The parameters of the \<^verbatim>\<open>INSERT\<close> after \<^verbatim>\<open>lb_id\<close>, each with its column.\<close>

definition stat_parameters ::
  "(string \<Rightarrow> int option) \<Rightarrow> raw_stat \<Rightarrow> (string \<times> sql_value) list" where
  "stat_parameters parse stat =
     [(''proxy_name'', bound_value (map_of stat ''pxname'')),
      (''server_name'', bound_value (map_of stat ''svname''))] @
     map (\<lambda>k. (k, int_or_none parse (map_of stat k))) int_columns @
     [(''status'', bound_value (map_of stat ''status''))] @
     map (\<lambda>k. (k, int_or_none parse (map_of stat k))) int_columns_after_status"

text \<open>
  The columns \<^verbatim>\<open>proxy_name\<close>, \<^verbatim>\<open>server_name\<close> and \<^verbatim>\<open>status\<close> are declared
  \<^verbatim>\<open>TEXT\<close>: an integer bound to one of them is stored as its decimal text. The other
  columns of the list are declared \<^verbatim>\<open>INTEGER\<close> and get an integer or NULL.
\<close>

fun digits :: "nat \<Rightarrow> string" where
  "digits n =
     (if n < 10 then [''0123456789'' ! n]
      else digits (n div 10) @ [''0123456789'' ! (n mod 10)])"

declare digits.simps [simp del]

definition decimal :: "int \<Rightarrow> string" where
  "decimal n = (if n < 0 then CHR ''-'' # digits (nat (- n)) else digits (nat n))"

definition text_columns :: "string list" where
  "text_columns = [''proxy_name'', ''server_name'', ''status'']"

definition stored_value :: "string \<times> sql_value \<Rightarrow> string \<times> sql_value" where
  "stored_value kv =
     (case kv of
        (k, Integer n) \<Rightarrow> if k \<in> set text_columns then (k, Text (decimal n)) else (k, Integer n)
      | (k, v) \<Rightarrow> (k, v))"

definition stat_columns :: "(string \<Rightarrow> int option) \<Rightarrow> raw_stat \<Rightarrow> (string \<times> sql_value) list" where
  "stat_columns parse stat = map stored_value (stat_parameters parse stat)"

text \<open>
  SQLite stores an integer in 64 bits: binding a larger Python integer raises
  \<^verbatim>\<open>OverflowError\<close>.
\<close>

definition bindable :: "sql_value \<Rightarrow> bool" where
  "bindable v =
     (case v of
        Integer n \<Rightarrow> - (2 ^ 63) \<le> n \<and> n < 2 ^ 63
      | _ \<Rightarrow> True)"

text \<open>\<^verbatim>\<open>INTEGER PRIMARY KEY AUTOINCREMENT\<close>: one more than the largest id of the table.\<close>

definition next_id :: "haproxy_row list \<Rightarrow> nat" where
  "next_id rows = Suc (fold max (map row_id rows) 0)"

text \<open>One \<^verbatim>\<open>cursor.execute\<close> of the loop.\<close>

definition insert_stat ::
  "(string \<Rightarrow> int option) \<Rightarrow> int \<Rightarrow> string \<Rightarrow> string \<Rightarrow> string \<Rightarrow> raw_stat \<Rightarrow> haproxy_row list \<Rightarrow>
     py_error + haproxy_row list"
where
  "insert_stat parse rid stamp amp lb stat rows =
     (let params = stat_parameters parse stat
      in if list_all (\<lambda>(k, v). bindable v) params \<and> bindable (Integer rid)
         then Inr (rows @
                [\<lparr>row_id = next_id rows, run_id = rid, timestamp = stamp, amphora_id = amp,
                  lb_id = lb, columns = stat_columns parse stat, raw_data = stat\<rparr>])
         else Inl OverflowError)"

fun insert_stats ::
  "(string \<Rightarrow> int option) \<Rightarrow> int \<Rightarrow> string \<Rightarrow> string \<Rightarrow> string \<Rightarrow> raw_stat list \<Rightarrow> haproxy_row list \<Rightarrow>
     py_error + haproxy_row list"
where
  "insert_stats parse rid stamp amp lb [] rows = Inr rows"
| "insert_stats parse rid stamp amp lb (stat # stats) rows =
     (case insert_stat parse rid stamp amp lb stat rows of
        Inl e \<Rightarrow> Inl e
      | Inr rows' \<Rightarrow> insert_stats parse rid stamp amp lb stats rows')"

text \<open>
  \<^verbatim>\<open>store_haproxy_stats\<close>; \<open>stamp\<close> is the text of \<^verbatim>\<open>datetime.utcnow().isoformat()\<close>, read
  once for the call. The connection commits after the loop: an exception in the loop leaves
  the database as it was.
\<close>

definition store_haproxy_stats ::
  "(string \<Rightarrow> int option) \<Rightarrow> database \<Rightarrow> string \<Rightarrow> int \<Rightarrow> string \<Rightarrow> string \<Rightarrow> raw_stat list \<Rightarrow>
     py_error + database"
where
  "store_haproxy_stats parse db stamp rid amp lb stats =
     (case insert_stats parse rid stamp amp lb stats (haproxy_stats db) of
        Inl e \<Rightarrow> Inl e
      | Inr rows \<Rightarrow> Inr (db\<lparr>haproxy_stats := rows\<rparr>))"

text \<open>
  \<^verbatim>\<open>get_haproxy_stats\<close>. A bound that is \<^verbatim>\<open>None\<close> or empty adds no condition. The
  timestamps are the texts of \<^verbatim>\<open>isoformat()\<close>; they are stored as text and compare byte
  by byte. The column is declared \<^verbatim>\<open>TIMESTAMP\<close>, which gives it numeric affinity: a
  bound that reads as a number is compared as a number, and a number is below every text.
  Which texts read as numbers is SQLite's matter and a parameter here, \<open>numeric\<close>.
  \<^verbatim>\<open>ORDER BY timestamp\<close> leaves the order of rows with the same timestamp open; the model
  keeps them in the order of the table.
\<close>

definition in_range ::
  "(string \<Rightarrow> bool) \<Rightarrow> string option \<Rightarrow> string option \<Rightarrow> string \<Rightarrow> bool" where
  "in_range numeric start_time end_time t =
     ((case start_time of
         None \<Rightarrow> True
       | Some b \<Rightarrow> b = [] \<or> (if numeric b then True else b \<le> t)) \<and>
      (case end_time of
         None \<Rightarrow> True
       | Some b \<Rightarrow> b = [] \<or> (if numeric b then False else t \<le> b)))"

definition get_haproxy_stats ::
  "(string \<Rightarrow> bool) \<Rightarrow> database \<Rightarrow> int \<Rightarrow> string option \<Rightarrow> string option \<Rightarrow>
     haproxy_row list" where
  "get_haproxy_stats numeric db rid start_time end_time =
     sort_key timestamp
       (filter (\<lambda>r. run_id r = rid \<and> in_range numeric start_time end_time (timestamp r))
          (haproxy_stats db))"

text \<open>
  A sequence of calls of \<^verbatim>\<open>store_haproxy_stats\<close>, each with its clock reading, run id,
  amphora, load balancer and batch; an exception ends the sequence.
\<close>

type_synonym write_call = "string \<times> int \<times> string \<times> string \<times> raw_stat list"

fun store_all :: "(string \<Rightarrow> int option) \<Rightarrow> database \<Rightarrow> write_call list \<Rightarrow> py_error + database" where
  "store_all parse db [] = Inr db"
| "store_all parse db ((stamp, rid, amp, lb, stats) # ws) =
     (case store_haproxy_stats parse db stamp rid amp lb stats of
        Inl e \<Rightarrow> Inl e
      | Inr db' \<Rightarrow> store_all parse db' ws)"

text \<open>The records that a sequence of calls writes for one run, in the order of writing.\<close>

fun written_for :: "int \<Rightarrow> write_call list \<Rightarrow> raw_stat list" where
  "written_for r [] = []"
| "written_for r ((stamp, rid, amp, lb, stats) # ws) =
     (if rid = r then stats else []) @ written_for r ws"

section \<open>Verification\<close>

subsection \<open>The findings of each pass\<close>

lemma bottlenecks_append_all [simp]: "bottlenecks (append_all d bs) = bottlenecks d @ bs"
  by (simp add: append_all_def)

lemma bottlenecks_analyze_haproxy:
  "bottlenecks (analyze_haproxy d stats) =
     bottlenecks d @
     (if stats = [] then []
      else connection_limit_analysis (last stats) @ queue_analysis (last stats) @
           error_rate_analysis (last stats) @ connection_trend_analysis stats)"
  by (simp add: analyze_haproxy_def Let_def)

lemma bottlenecks_analyze_host_metrics:
  "bottlenecks (analyze_host_metrics d metrics h) =
     bottlenecks d @
     (if metrics = [] then [] else cpu_analysis (last metrics) h @ memory_analysis (last metrics) h)"
  by (simp add: analyze_host_metrics_def Let_def)

lemma bottlenecks_analyze_locust_stats:
  "bottlenecks (analyze_locust_stats d stats) =
     bottlenecks d @
     (if stats = [] then []
      else failure_rate_analysis (last stats) @ response_time_analysis (last stats))"
  by (simp add: analyze_locust_stats_def Let_def)

lemma filter_analyze_system_metrics:
  assumes "\<And>l h. filter P (cpu_analysis l h) = []"
    and "\<And>l h. filter P (memory_analysis l h) = []"
  shows "filter P (bottlenecks (analyze_system_metrics d ms)) = filter P (bottlenecks d)"
  using assms by (simp add: analyze_system_metrics_def Let_def bottlenecks_analyze_host_metrics)

lemma filter_analyze_locust_stats:
  assumes "\<And>l. filter P (failure_rate_analysis l) = []"
    and "\<And>l. filter P (response_time_analysis l) = []"
  shows "filter P (bottlenecks (analyze_locust_stats d ls)) = filter P (bottlenecks d)"
  using assms by (simp add: bottlenecks_analyze_locust_stats)

lemma filter_detect_haproxy_only:
  assumes "\<And>l h. filter P (cpu_analysis l h) = []"
    and "\<And>l h. filter P (memory_analysis l h) = []"
    and "\<And>l. filter P (failure_rate_analysis l) = []"
    and "\<And>l. filter P (response_time_analysis l) = []"
  shows "filter P (bottlenecks (detect d hs ss ls)) =
     (if hs = [] then []
      else filter P (connection_limit_analysis (last hs)) @ filter P (queue_analysis (last hs)) @
           filter P (error_rate_analysis (last hs)) @ filter P (connection_trend_analysis hs))"
  using assms
  by (simp add: detect_def Let_def analyze_correlations_def filter_analyze_system_metrics
      filter_analyze_locust_stats bottlenecks_analyze_haproxy split: option.split)

lemma bottlenecks_analyze:
  "bottlenecks (analyze d hs ss ls) =
     sort_key (\<lambda>b. severity_order (severity b)) (bottlenecks (detect d hs ss ls))"
  by (simp add: analyze_def Let_def)

lemma sat_queue [simp]: "filter is_connection_saturation (queue_analysis l) = []"
  by (simp add: queue_analysis_def is_connection_saturation_def Let_def)
lemma sat_error [simp]: "filter is_connection_saturation (error_rate_analysis l) = []"
  by (simp add: error_rate_analysis_def is_connection_saturation_def Let_def)
lemma sat_trend [simp]: "filter is_connection_saturation (connection_trend_analysis l) = []"
  by (simp add: connection_trend_analysis_def is_connection_saturation_def Let_def)
lemma sat_cpu [simp]: "filter is_connection_saturation (cpu_analysis l h) = []"
  by (simp add: cpu_analysis_def is_connection_saturation_def Let_def)
lemma sat_memory [simp]: "filter is_connection_saturation (memory_analysis l h) = []"
  by (simp add: memory_analysis_def is_connection_saturation_def Let_def)
lemma sat_failure [simp]: "filter is_connection_saturation (failure_rate_analysis l) = []"
  by (simp add: failure_rate_analysis_def is_connection_saturation_def Let_def)
lemma sat_response [simp]: "filter is_connection_saturation (response_time_analysis l) = []"
  by (simp add: response_time_analysis_def is_connection_saturation_def Let_def)

lemma sat_connection [simp]:
  "filter is_connection_saturation (connection_limit_analysis l) = connection_limit_analysis l"
  by (simp add: connection_limit_analysis_def is_connection_saturation_def Let_def)

lemma sort_key_short: "length xs \<le> Suc 0 \<Longrightarrow> sort_key f xs = xs"
  by (cases xs) simp_all

lemma length_connection_limit_analysis: "length (connection_limit_analysis l) \<le> Suc 0"
  by (simp add: connection_limit_analysis_def Let_def)

lemma length_connection_trend_analysis: "length (connection_trend_analysis l) \<le> Suc 0"
  by (simp add: connection_trend_analysis_def Let_def)

lemma filter_saturation_analyze:
  "filter is_connection_saturation (bottlenecks (analyze d hs ss ls)) =
     (if hs = [] then [] else connection_limit_analysis (last hs))"
  by (simp add: bottlenecks_analyze filter_sort filter_detect_haproxy_only sort_key_short
      length_connection_limit_analysis)

lemma growth_queue [simp]: "filter is_connection_growth (queue_analysis l) = []"
  by (simp add: queue_analysis_def is_connection_growth_def Let_def)
lemma growth_error [simp]: "filter is_connection_growth (error_rate_analysis l) = []"
  by (simp add: error_rate_analysis_def is_connection_growth_def Let_def)
lemma growth_connection [simp]: "filter is_connection_growth (connection_limit_analysis l) = []"
  by (simp add: connection_limit_analysis_def is_connection_growth_def Let_def)
lemma growth_cpu [simp]: "filter is_connection_growth (cpu_analysis l h) = []"
  by (simp add: cpu_analysis_def is_connection_growth_def Let_def)
lemma growth_memory [simp]: "filter is_connection_growth (memory_analysis l h) = []"
  by (simp add: memory_analysis_def is_connection_growth_def Let_def)
lemma growth_failure [simp]: "filter is_connection_growth (failure_rate_analysis l) = []"
  by (simp add: failure_rate_analysis_def is_connection_growth_def Let_def)
lemma growth_response [simp]: "filter is_connection_growth (response_time_analysis l) = []"
  by (simp add: response_time_analysis_def is_connection_growth_def Let_def)

lemma growth_trend [simp]:
  "filter is_connection_growth (connection_trend_analysis l) = connection_trend_analysis l"
  by (simp add: connection_trend_analysis_def is_connection_growth_def Let_def)

lemma filter_growth_analyze:
  "filter is_connection_growth (bottlenecks (analyze d hs ss ls)) = connection_trend_analysis hs"
proof (cases "hs = []")
  case True
  then show ?thesis
    by (simp add: bottlenecks_analyze filter_sort filter_detect_haproxy_only
        connection_trend_analysis_def)
next
  case False
  then show ?thesis
    by (simp add: bottlenecks_analyze filter_sort filter_detect_haproxy_only sort_key_short
        length_connection_trend_analysis)
qed

lemma all_steps_iff_sorted:
  "list_all (\<lambda>i. xs ! i \<le> xs ! (i + 1)) [0 ..< length xs - 1] \<longleftrightarrow> sorted xs"
  by (auto simp: list_all_iff sorted_iff_nth_Suc)

lemma length_recent_scur: "10 \<le> length stats \<Longrightarrow> length (recent_scur stats) = 10"
  by (simp add: recent_scur_def)





lemma subseq_pair: "subseq xs [a] \<Longrightarrow> subseq ys [b] \<Longrightarrow> subseq (xs @ ys) [a, b]"
  using list_emb_append_mono [of "(=)" xs "[a]" ys "[b]"] by simp
















lemma detect_passes:
  "detect d hs ss ls =
     analyze_locust_stats
       (analyze_system_metrics (analyze_haproxy (d\<lparr>bottlenecks := []\<rparr>) hs) ss)
       (case ls of None \<Rightarrow> [] | Some l \<Rightarrow> l)"
proof -
  have h: "\<And>e. (if hs \<noteq> [] then analyze_haproxy e hs else e) = analyze_haproxy e hs"
    by (simp add: analyze_haproxy_def)
  have s: "\<And>e. (if ss \<noteq> [] then analyze_system_metrics e ss else e) = analyze_system_metrics e ss"
    by (simp add: analyze_system_metrics_def)
  have l: "\<And>e. (case ls of None \<Rightarrow> e
                | Some l \<Rightarrow> if l \<noteq> [] then analyze_locust_stats e l else e) =
      analyze_locust_stats e (case ls of None \<Rightarrow> [] | Some l \<Rightarrow> l)"
    by (simp add: analyze_locust_stats_def split: option.split)
  show ?thesis
    unfolding detect_def Let_def analyze_correlations_def h s l by simp
qed




lemma floordiv_1024_small [simp]: "floordiv_1024 1 = 0" "floordiv_1024 0 = 0"
  by (simp_all add: floordiv_1024_def)

lemma memory_cpu [simp]: "filter is_memory_pressure (cpu_analysis l h) = []"
  by (simp add: cpu_analysis_def is_memory_pressure_def Let_def)

lemma severity_order_inj: "severity_order a = severity_order b \<longleftrightarrow> a = b"
  by (cases a; cases b) simp_all

lemma no_tier_below:
  assumes "\<forall>z\<in>set ys. severity_order (severity b) \<le> severity_order (severity z)"
    and "severity_order t < severity_order (severity b)"
  shows "filter (\<lambda>z. severity z = t) ys = []"
  using assms by (fastforce simp: filter_empty_conv)

lemma tiers_of_sorted:
  assumes "sorted (map (\<lambda>b. severity_order (severity b)) ys)"
  shows "ys =
     filter (\<lambda>b. severity b = CRITICAL) ys @ filter (\<lambda>b. severity b = HIGH) ys @
     filter (\<lambda>b. severity b = MEDIUM) ys @ filter (\<lambda>b. severity b = LOW) ys"
  using assms
proof (induction ys)
  case Nil
  show ?case by simp
next
  case (Cons b ys)
  then have le: "\<forall>z\<in>set ys. severity_order (severity b) \<le> severity_order (severity z)"
    and IH: "ys =
     filter (\<lambda>b. severity b = CRITICAL) ys @ filter (\<lambda>b. severity b = HIGH) ys @
     filter (\<lambda>b. severity b = MEDIUM) ys @ filter (\<lambda>b. severity b = LOW) ys"
    by simp_all
  show ?case
  proof (cases "severity b")
    case CRITICAL
    with IH show ?thesis by simp
  next
    case HIGH
    with le have "filter (\<lambda>z. severity z = CRITICAL) ys = []"
      by (intro no_tier_below [of ys b]) simp_all
    with IH HIGH show ?thesis by simp
  next
    case MEDIUM
    with le have "filter (\<lambda>z. severity z = CRITICAL) ys = []"
      and "filter (\<lambda>z. severity z = HIGH) ys = []"
      by (intro no_tier_below [of ys b]; simp)+
    with IH MEDIUM show ?thesis by simp
  next
    case LOW
    with le have "filter (\<lambda>z. severity z = CRITICAL) ys = []"
      and "filter (\<lambda>z. severity z = HIGH) ys = []"
      and "filter (\<lambda>z. severity z = MEDIUM) ys = []"
      by (intro no_tier_below [of ys b]; simp)+
    with IH LOW show ?thesis by simp
  qed
qed

lemma bottlenecks_detect:
  "bottlenecks (detect d hs ss ls) =
     (if hs = [] then []
      else connection_limit_analysis (last hs) @ queue_analysis (last hs) @
           error_rate_analysis (last hs) @ connection_trend_analysis hs) @
     (let amphora_metrics = filter (\<lambda>m. has_substring ''amphora'' (lower (host_type_of m))) ss
      in if amphora_metrics = [] then []
         else cpu_analysis (last amphora_metrics) ''amphora'' @
              memory_analysis (last amphora_metrics) ''amphora'') @
     (let backend_metrics = filter (\<lambda>m. has_substring ''backend'' (lower (host_type_of m))) ss
      in if backend_metrics = [] then []
         else cpu_analysis (last backend_metrics) ''backend'' @
              memory_analysis (last backend_metrics) ''backend'') @
     (case ls of
        None \<Rightarrow> []
      | Some l \<Rightarrow>
          if l = [] then []
          else failure_rate_analysis (last l) @ response_time_analysis (last l))"
proof -
  have sys: "bottlenecks (analyze_system_metrics e ss) =
     bottlenecks e @
     (let amphora_metrics = filter (\<lambda>m. has_substring ''amphora'' (lower (host_type_of m))) ss
      in if amphora_metrics = [] then []
         else cpu_analysis (last amphora_metrics) ''amphora'' @
              memory_analysis (last amphora_metrics) ''amphora'') @
     (let backend_metrics = filter (\<lambda>m. has_substring ''backend'' (lower (host_type_of m))) ss
      in if backend_metrics = [] then []
         else cpu_analysis (last backend_metrics) ''backend'' @
              memory_analysis (last backend_metrics) ''backend'')" for e
    by (simp add: analyze_system_metrics_def Let_def bottlenecks_analyze_host_metrics)
  show ?thesis
    unfolding detect_passes
    by (simp add: bottlenecks_analyze_locust_stats sys bottlenecks_analyze_haproxy
        split: option.split)
qed

lemma get_or_scur: "get_or row ''scur'' 0 = session_count row"
  by (simp add: get_or_def session_count_def split: option.split)

lemma recent_scur_session_counts:
  "recent_scur hs = map session_count (drop (length hs - 10) hs)"
  by (simp add: recent_scur_def get_or_scur)

lemma recent_scur_nth:
  "10 \<le> length hs \<Longrightarrow> i < 10 \<Longrightarrow>
     recent_scur hs ! i = session_count (hs ! (length hs - 10 + i))"
  by (simp add: recent_scur_session_counts)


subsection \<open>Claims about the detector\<close>

text \<open>
  C2. When the latest HAProxy row has a positive session limit, saturation is
  \<open>scur / slim * 100\<close>. At 90 or more the analysis holds exactly one connection-saturation
  finding, of severity CRITICAL; from 70 up to 90 exactly one, of severity HIGH; below 70, or
  with a limit that is not positive, none. With \<open>scur = 950\<close> and \<open>slim = 1000\<close> the one
  finding is CRITICAL and its evidence holds \<open>saturation_percent = 95\<close>; with \<open>scur = 750\<close>
  it is HIGH, not CRITICAL.
\<close>

theorem connection_saturation_tiers:
  fixes hs :: "sample list" and d :: detector and ss :: "sample list"
    and ls :: "sample list option"
  defines "scur \<equiv> get_or (last hs) ''scur'' 0"
    and "slim \<equiv> get_or (last hs) ''slim'' 0"
  defines "found \<equiv> filter is_connection_saturation (bottlenecks (analyze d hs ss ls))"
  assumes "hs \<noteq> []"
  shows "(0 < slim \<and> 90 \<le> scur / slim * 100 \<longrightarrow>
            (\<exists>b. found = [b] \<and> severity b = CRITICAL \<and>
                 map_of (evidence b) ''saturation_percent'' = Some (ENum (scur / slim * 100)))) \<and>
         (0 < slim \<and> 70 \<le> scur / slim * 100 \<and> scur / slim * 100 < 90 \<longrightarrow>
            (\<exists>b. found = [b] \<and> severity b = HIGH \<and>
                 map_of (evidence b) ''saturation_percent'' = Some (ENum (scur / slim * 100)))) \<and>
         (slim \<le> 0 \<or> scur / slim * 100 < 70 \<longrightarrow> found = []) \<and>
         (num (last hs) ''scur'' = Some (Some 950) \<and> num (last hs) ''slim'' = Some (Some 1000) \<longrightarrow>
            (\<exists>b. found = [b] \<and> severity b = CRITICAL \<and>
                 map_of (evidence b) ''saturation_percent'' = Some (ENum 95))) \<and>
         (num (last hs) ''scur'' = Some (Some 750) \<and> num (last hs) ''slim'' = Some (Some 1000) \<longrightarrow>
            (\<exists>b. found = [b] \<and> severity b = HIGH \<and> severity b \<noteq> CRITICAL))"
  using assms
  by (auto simp: filter_saturation_analyze connection_limit_analysis_def Let_def thresholds
      get_or_def)

theorem connection_saturation_tiers_witness:
  "[\<lparr>host_type = None, num = [''scur'' \<mapsto> Some 950, ''slim'' \<mapsto> Some 1000]\<rparr>] \<noteq> [] \<and>
   (\<exists>b. filter is_connection_saturation
          (bottlenecks
            (analyze \<lparr>bottlenecks = []\<rparr>
              [\<lparr>host_type = None, num = [''scur'' \<mapsto> Some 950, ''slim'' \<mapsto> Some 1000]\<rparr>]
              [] None)) = [b] \<and>
        severity b = CRITICAL \<and>
        map_of (evidence b) ''saturation_percent'' = Some (ENum 95))"
  using connection_saturation_tiers
    [of "[\<lparr>host_type = None, num = [''scur'' \<mapsto> Some 950, ''slim'' \<mapsto> Some 1000]\<rparr>]"
      "\<lparr>bottlenecks = []\<rparr>" "[]" None]
  by simp

text \<open>
  C4. The list \<open>analyze\<close> returns is made of the findings of severity CRITICAL, then those
  of severity HIGH, then those of severity MEDIUM, then those of severity LOW, and in each of
  the four parts the findings stand in the order in which they were detected. The order of
  detection is the order of the passes: the four blocks for the latest HAProxy row, the
  amphora hosts, the backend hosts, the load generator.
\<close>

theorem analyze_sorted_stable:
  "bottlenecks (analyze d hs ss ls) =
     filter (\<lambda>b. severity b = CRITICAL) (bottlenecks (detect d hs ss ls)) @
     filter (\<lambda>b. severity b = HIGH) (bottlenecks (detect d hs ss ls)) @
     filter (\<lambda>b. severity b = MEDIUM) (bottlenecks (detect d hs ss ls)) @
     filter (\<lambda>b. severity b = LOW) (bottlenecks (detect d hs ss ls)) \<and>
   bottlenecks (detect d hs ss ls) =
     (if hs = [] then []
      else connection_limit_analysis (last hs) @ queue_analysis (last hs) @
           error_rate_analysis (last hs) @ connection_trend_analysis hs) @
     (let amphora_metrics = filter (\<lambda>m. has_substring ''amphora'' (lower (host_type_of m))) ss
      in if amphora_metrics = [] then []
         else cpu_analysis (last amphora_metrics) ''amphora'' @
              memory_analysis (last amphora_metrics) ''amphora'') @
     (let backend_metrics = filter (\<lambda>m. has_substring ''backend'' (lower (host_type_of m))) ss
      in if backend_metrics = [] then []
         else cpu_analysis (last backend_metrics) ''backend'' @
              memory_analysis (last backend_metrics) ''backend'') @
     (case ls of
        None \<Rightarrow> []
      | Some l \<Rightarrow>
          if l = [] then []
          else failure_rate_analysis (last l) @ response_time_analysis (last l))"
proof -
  let ?xs = "bottlenecks (detect d hs ss ls)"
  let ?ys = "bottlenecks (analyze d hs ss ls)"
  have stable: "filter (\<lambda>b. severity b = sev) ?ys = filter (\<lambda>b. severity b = sev) ?xs" for sev
    using sort_key_stable [of "\<lambda>b. severity_order (severity b)" "severity_order sev" ?xs]
    by (simp add: bottlenecks_analyze severity_order_inj)
  have "sorted (map (\<lambda>b. severity_order (severity b)) ?ys)"
    by (simp add: bottlenecks_analyze)
  from tiers_of_sorted [OF this] have "?ys =
     filter (\<lambda>b. severity b = CRITICAL) ?xs @ filter (\<lambda>b. severity b = HIGH) ?xs @
     filter (\<lambda>b. severity b = MEDIUM) ?xs @ filter (\<lambda>b. severity b = LOW) ?xs"
    unfolding stable .
  with bottlenecks_detect [of d hs ss ls] show ?thesis
    by blast
qed

theorem analyze_sorted_stable_witness:
  "map (\<lambda>b. (severity b, btype b))
     (bottlenecks
       (analyze \<lparr>bottlenecks = []\<rparr>
         [\<lparr>host_type = None,
           num = [''scur'' \<mapsto> Some 750, ''slim'' \<mapsto> Some 1000, ''qcur'' \<mapsto> Some 60,
                  ''stot'' \<mapsto> Some 100, ''ereq'' \<mapsto> Some 2]\<rparr>]
         []
         (Some [\<lparr>host_type = None,
                 num = [''num_requests'' \<mapsto> Some 100, ''num_failures'' \<mapsto> Some 50]\<rparr>]))) =
   [(CRITICAL, CONFIGURATION), (HIGH, CONNECTION_LIMIT), (HIGH, BACKEND), (MEDIUM, CONFIGURATION)]"
proof -
  let ?row = "\<lparr>host_type = None,
           num = [''scur'' \<mapsto> Some 750, ''slim'' \<mapsto> Some 1000, ''qcur'' \<mapsto> Some 60,
                  ''stot'' \<mapsto> Some 100, ''ereq'' \<mapsto> Some (2 :: real)]\<rparr>"
  let ?load = "\<lparr>host_type = None,
                 num = [''num_requests'' \<mapsto> Some 100, ''num_failures'' \<mapsto> Some (50 :: real)]\<rparr>"
  have c: "map (\<lambda>b. (severity b, btype b)) (connection_limit_analysis ?row) =
      [(HIGH, CONNECTION_LIMIT)]"
    by (simp add: connection_limit_analysis_def get_or_def thresholds)
  have q: "map (\<lambda>b. (severity b, btype b)) (queue_analysis ?row) = [(HIGH, BACKEND)]"
    by (simp add: queue_analysis_def get_or_def thresholds)
  have e: "map (\<lambda>b. (severity b, btype b)) (error_rate_analysis ?row) =
      [(MEDIUM, CONFIGURATION)]"
    by (simp add: error_rate_analysis_def get_or_def thresholds)
  have t: "connection_trend_analysis [?row] = []"
    by (simp add: connection_trend_analysis_def)
  have f: "map (\<lambda>b. (severity b, btype b)) (failure_rate_analysis ?load) =
      [(CRITICAL, CONFIGURATION)]"
    by (simp add: failure_rate_analysis_def get_or_def)
  have r: "response_time_analysis ?load = []"
    by (simp add: response_time_analysis_def get_or_def)
  have "map (\<lambda>b. (severity b, btype b))
      (bottlenecks (detect \<lparr>bottlenecks = []\<rparr> [?row] [] (Some [?load]))) =
      [(HIGH, CONNECTION_LIMIT), (HIGH, BACKEND), (MEDIUM, CONFIGURATION),
       (CRITICAL, CONFIGURATION)]"
    using analyze_sorted_stable [of "\<lparr>bottlenecks = []\<rparr>" "[?row]" "[]" "Some [?load]"]
    by (simp add: c q e t f r)
  then have d: "\<exists>b1 b2 b3 b4.
      bottlenecks (detect \<lparr>bottlenecks = []\<rparr> [?row] [] (Some [?load])) = [b1, b2, b3, b4] \<and>
      severity b1 = HIGH \<and> btype b1 = CONNECTION_LIMIT \<and>
      severity b2 = HIGH \<and> btype b2 = BACKEND \<and>
      severity b3 = MEDIUM \<and> btype b3 = CONFIGURATION \<and>
      severity b4 = CRITICAL \<and> btype b4 = CONFIGURATION"
    by (auto simp: map_eq_Cons_conv)
  then obtain b1 b2 b3 b4 where
    "bottlenecks (detect \<lparr>bottlenecks = []\<rparr> [?row] [] (Some [?load])) = [b1, b2, b3, b4]"
    "severity b1 = HIGH" "btype b1 = CONNECTION_LIMIT"
    "severity b2 = HIGH" "btype b2 = BACKEND"
    "severity b3 = MEDIUM" "btype b3 = CONFIGURATION"
    "severity b4 = CRITICAL" "btype b4 = CONFIGURATION"
    by blast
  then show ?thesis
    using analyze_sorted_stable [of "\<lparr>bottlenecks = []\<rparr>" "[?row]" "[]" "Some [?load]"]
    by simp
qed

text \<open>
  C6. The connection-growth finding depends on the session counts of the last ten rows
  only. With ten rows or more, when the session count never decreases from one of the last
  ten rows to the next, the analysis holds exactly one connection-growth finding, of
  severity MEDIUM, with the ten session counts as evidence, whatever the session level and
  the limit are. With fewer than ten rows, or a decrease between two consecutive rows of the
  last ten, it holds none. The connection-saturation findings are the ones of the latest
  row, with or without a growth finding.
\<close>

theorem connection_growth_trend:
  fixes hs :: "sample list" and d :: detector and ss :: "sample list"
    and ls :: "sample list option"
  defines "found \<equiv> filter is_connection_growth (bottlenecks (analyze d hs ss ls))"
  shows "(10 \<le> length hs \<and>
          (\<forall>i<9. session_count (hs ! (length hs - 10 + i)) \<le>
                  session_count (hs ! (length hs - 10 + Suc i))) \<longrightarrow>
            (\<exists>b. found = [b] \<and> severity b = MEDIUM \<and>
                 map_of (evidence b) ''connection_trend'' =
                   Some (ENumList (map session_count (drop (length hs - 10) hs))))) \<and>
         (length hs < 10 \<or>
          (\<exists>i<9. session_count (hs ! (length hs - 10 + Suc i)) <
                  session_count (hs ! (length hs - 10 + i))) \<longrightarrow>
            found = []) \<and>
         filter is_connection_saturation (bottlenecks (analyze d hs ss ls)) =
           (if hs = [] then [] else connection_limit_analysis (last hs))"
proof (cases "10 \<le> length hs")
  case True
  let ?steps = "\<forall>i<9. session_count (hs ! (length hs - 10 + i)) \<le>
                  session_count (hs ! (length hs - 10 + Suc i))"
  have "list_all (\<lambda>i. recent_scur hs ! i \<le> recent_scur hs ! (i + 1))
          [0 ..< length (recent_scur hs) - 1] \<longleftrightarrow>
        (\<forall>i<9. recent_scur hs ! i \<le> recent_scur hs ! Suc i)"
    using length_recent_scur [OF True] by (auto simp: list_all_iff)
  also have "\<dots> \<longleftrightarrow> ?steps"
    using True by (simp add: recent_scur_nth)
  finally have trend: "connection_trend_analysis hs =
      (if ?steps
       then [\<lparr>btype = CONNECTION_LIMIT, severity = MEDIUM,
                description = [Lit ''Connections continuously increasing''],
                evidence = [(''connection_trend'', ENumList (recent_scur hs))],
                recommendation = rec_trend,
                affected_component = ''amphora/haproxy''\<rparr>]
       else [])"
    using True by (simp add: connection_trend_analysis_def Let_def)
  show ?thesis
    unfolding found_def filter_growth_analyze filter_saturation_analyze trend
    using True by (auto simp: not_le recent_scur_session_counts)
next
  case False
  then have "connection_trend_analysis hs = []"
    by (simp add: connection_trend_analysis_def)
  with False show ?thesis
    unfolding found_def filter_growth_analyze filter_saturation_analyze by simp
qed

theorem connection_growth_trend_witness:
  "10 \<le> length (map (\<lambda>v. \<lparr>host_type = None, num = [''scur'' \<mapsto> Some v]\<rparr>)
                  [9, 7, 1, 2, 3, 4, 5, 5, 6, 7, 8, 9 :: real]) \<and>
   (\<exists>b. filter is_connection_growth
          (bottlenecks
            (analyze \<lparr>bottlenecks = []\<rparr>
              (map (\<lambda>v. \<lparr>host_type = None, num = [''scur'' \<mapsto> Some v]\<rparr>)
                [9, 7, 1, 2, 3, 4, 5, 5, 6, 7, 8, 9 :: real])
              [] None)) = [b] \<and>
        severity b = MEDIUM \<and>
        map_of (evidence b) ''connection_trend'' =
          Some (ENumList [1, 2, 3, 4, 5, 5, 6, 7, 8, 9]))"
proof -
  define hs where
    "hs = map (\<lambda>v. \<lparr>host_type = None, num = [''scur'' \<mapsto> Some v]\<rparr>)
            [9, 7, 1, 2, 3, 4, 5, 5, 6, 7, 8, 9 :: real]"
  have len: "10 \<le> length hs"
    by (simp add: hs_def)
  have r: "map session_count (drop (length hs - 10) hs) = [1, 2, 3, 4, 5, 5, 6, 7, 8, 9]"
    by (simp add: hs_def session_count_def)
  then have "sorted (recent_scur hs)" and "length (recent_scur hs) = 10"
    unfolding recent_scur_session_counts by simp_all
  then have "\<forall>i<9. recent_scur hs ! i \<le> recent_scur hs ! Suc i"
    unfolding sorted_iff_nth_Suc by simp
  then have "\<forall>i<9. session_count (hs ! (length hs - 10 + i)) \<le>
                  session_count (hs ! (length hs - 10 + Suc i))"
    using len by (simp add: recent_scur_nth)
  with len have "10 \<le> length hs \<and>
      (\<exists>b. filter is_connection_growth (bottlenecks (analyze \<lparr>bottlenecks = []\<rparr> hs [] None)) = [b] \<and>
           severity b = MEDIUM \<and>
           map_of (evidence b) ''connection_trend'' =
             Some (ENumList (map session_count (drop (length hs - 10) hs))))"
    using connection_growth_trend [of hs "\<lparr>bottlenecks = []\<rparr>" "[]" None]
    by blast
  then show ?thesis
    unfolding r unfolding hs_def .
qed

text \<open>
  C10. When the latest row of a non-empty host series has no \<open>mem_total\<close> and no \<open>mem_free\<close>
  (the key is absent, or holds \<open>None\<close>), total memory is read as 1 and free memory as 0,
  the free share is 0 percent, and the pass appends one memory finding: CRITICAL, for that
  host type.
\<close>

theorem missing_memory_is_critical:
  assumes "metrics \<noteq> []"
    and "num (last metrics) ''mem_total'' = None \<or> num (last metrics) ''mem_total'' = Some None"
    and "num (last metrics) ''mem_free'' = None \<or> num (last metrics) ''mem_free'' = Some None"
  shows "get_or (last metrics) ''mem_total'' 1 = 1 \<and>
         get_or (last metrics) ''mem_free'' 0 = 0 \<and>
         filter is_memory_pressure (bottlenecks (analyze_host_metrics d metrics h)) =
           filter is_memory_pressure (bottlenecks d) @
           [\<lparr>btype = MEMORY, severity = CRITICAL,
             description =
               [Title h, Lit '' memory critical: '', Lit ''only '', Fmt 0 ''.1f'', Lit ''% free''],
             evidence = [(''total_mb'', ENum 0), (''free_mb'', ENum 0), (''free_percent'', ENum 0)],
             recommendation = rec_memory_critical h,
             affected_component = h\<rparr>]"
proof -
  have t: "get_or (last metrics) ''mem_total'' 1 = 1"
    using assms(2) by (auto simp: get_or_def)
  have f: "get_or (last metrics) ''mem_free'' 0 = 0"
    using assms(3) by (auto simp: get_or_def)
  have "memory_analysis (last metrics) h =
           [\<lparr>btype = MEMORY, severity = CRITICAL,
             description =
               [Title h, Lit '' memory critical: '', Lit ''only '', Fmt 0 ''.1f'', Lit ''% free''],
             evidence = [(''total_mb'', ENum 0), (''free_mb'', ENum 0), (''free_percent'', ENum 0)],
             recommendation = rec_memory_critical h,
             affected_component = h\<rparr>]"
    by (simp add: memory_analysis_def t f Let_def thresholds)
  with assms(1) t f show ?thesis
    by (simp add: bottlenecks_analyze_host_metrics is_memory_pressure_def)
qed

theorem missing_memory_is_critical_witness:
  "[\<lparr>host_type = Some ''amphora'', num = [''mem_total'' \<mapsto> None]\<rparr>] \<noteq> [] \<and>
   filter is_memory_pressure
     (bottlenecks
       (analyze_host_metrics \<lparr>bottlenecks = []\<rparr>
         [\<lparr>host_type = Some ''amphora'', num = [''mem_total'' \<mapsto> None]\<rparr>] ''amphora'')) =
     [\<lparr>btype = MEMORY, severity = CRITICAL,
       description =
         [Title ''amphora'', Lit '' memory critical: '', Lit ''only '', Fmt 0 ''.1f'',
          Lit ''% free''],
       evidence = [(''total_mb'', ENum 0), (''free_mb'', ENum 0), (''free_percent'', ENum 0)],
       recommendation = rec_memory_critical ''amphora'',
       affected_component = ''amphora''\<rparr>]"
  using missing_memory_is_critical
    [of "[\<lparr>host_type = Some ''amphora'', num = [''mem_total'' \<mapsto> None]\<rparr>]"
      "\<lparr>bottlenecks = []\<rparr>" "''amphora''"]
  by simp



subsection \<open>Claims about the aggregator\<close>

lemma rate_step_apply:
  "rate_step current previous i a acc (k @ ''_per_sec'') =
     (case (map_of current k, map_of previous k) of
        (Some c, Some p) \<Rightarrow>
          if a = k \<and> 0 \<le> c - p then Some (real_of_int (c - p) / i)
          else acc (k @ ''_per_sec'')
      | _ \<Rightarrow> acc (k @ ''_per_sec''))"
  by (auto simp: rate_step_def Let_def split: option.split)

lemma rate_step_other:
  "\<forall>k. key \<noteq> k @ ''_per_sec'' \<Longrightarrow> rate_step current previous i a acc key = acc key"
  by (auto simp: rate_step_def Let_def split: option.split)

lemma fold_rate_step:
  "fold (rate_step current previous i) ks acc (k @ ''_per_sec'') =
     (case (map_of current k, map_of previous k) of
        (Some c, Some p) \<Rightarrow>
          if k \<in> set ks \<and> 0 \<le> c - p then Some (real_of_int (c - p) / i)
          else acc (k @ ''_per_sec'')
      | _ \<Rightarrow> acc (k @ ''_per_sec''))"
proof (induction ks arbitrary: acc)
  case Nil
  show ?case by (simp split: option.split)
next
  case (Cons a ks)
  have "fold (rate_step current previous i) (a # ks) acc (k @ ''_per_sec'') =
        fold (rate_step current previous i) ks (rate_step current previous i a acc)
          (k @ ''_per_sec'')"
    by simp
  also have "\<dots> =
     (case (map_of current k, map_of previous k) of
        (Some c, Some p) \<Rightarrow>
          if k \<in> set ks \<and> 0 \<le> c - p then Some (real_of_int (c - p) / i)
          else rate_step current previous i a acc (k @ ''_per_sec'')
      | _ \<Rightarrow> rate_step current previous i a acc (k @ ''_per_sec''))"
    by (rule Cons.IH)
  also have "\<dots> =
     (case (map_of current k, map_of previous k) of
        (Some c, Some p) \<Rightarrow>
          if k \<in> set (a # ks) \<and> 0 \<le> c - p then Some (real_of_int (c - p) / i)
          else acc (k @ ''_per_sec'')
      | _ \<Rightarrow> acc (k @ ''_per_sec''))"
    unfolding rate_step_apply by (auto split: option.split)
  finally show ?case .
qed

lemma fold_rate_step_other:
  "\<forall>k. key \<noteq> k @ ''_per_sec'' \<Longrightarrow> fold (rate_step current previous i) ks acc key = acc key"
proof (induction ks arbitrary: acc)
  case Nil
  show ?case by simp
next
  case (Cons a ks)
  have "fold (rate_step current previous i) (a # ks) acc key =
        fold (rate_step current previous i) ks (rate_step current previous i a acc) key"
    by simp
  also have "\<dots> = rate_step current previous i a acc key"
    by (rule Cons.IH [OF Cons.prems])
  also have "\<dots> = acc key"
    by (rule rate_step_other [OF Cons.prems])
  finally show ?case .
qed

text \<open>
  C1. With an interval that is zero or negative \<open>calculate_rates\<close> returns the empty
  dictionary. With a positive interval, the rate of a field \<open>k\<close> is stored under
  \<open>k @ ''_per_sec''\<close>: it is the delta divided by the interval when \<open>k\<close> is in both
  dictionaries and the delta, current minus previous, is not negative; there is no entry
  when the delta is negative or \<open>k\<close> is missing from either dictionary. No other key has an
  entry.
\<close>

theorem calculate_rates_spec:
  "(interval_seconds \<le> 0 \<longrightarrow> calculate_rates current previous interval_seconds = Map.empty) \<and>
   (0 < interval_seconds \<longrightarrow>
      (\<forall>k. calculate_rates current previous interval_seconds (k @ ''_per_sec'') =
         (case (map_of current k, map_of previous k) of
            (Some c, Some p) \<Rightarrow>
              if 0 \<le> c - p then Some (real_of_int (c - p) / interval_seconds) else None
          | _ \<Rightarrow> None)) \<and>
      (\<forall>key. (\<forall>k. key \<noteq> k @ ''_per_sec'') \<longrightarrow>
         calculate_rates current previous interval_seconds key = None))"
proof -
  have "k \<in> set (map fst current)" if "map_of current k = Some c" for k c
    using that by (metis map_of_eq_None_iff option.distinct(1) set_map)
  then show ?thesis
    by (auto simp: calculate_rates_def fold_rate_step fold_rate_step_other split: option.split)
qed

theorem calculate_rates_spec_witness:
  "(0::real) < 5 \<and>
   calculate_rates [(''stot'', 150), (''bin'', 10), (''dreq'', 7)] [(''stot'', 100), (''bin'', 20)] 5
     ''stot_per_sec'' = Some 10 \<and>
   calculate_rates [(''stot'', 150), (''bin'', 10), (''dreq'', 7)] [(''stot'', 100), (''bin'', 20)] 5
     ''bin_per_sec'' = None \<and>
   calculate_rates [(''stot'', 150), (''bin'', 10), (''dreq'', 7)] [(''stot'', 100), (''bin'', 20)] 5
     ''dreq_per_sec'' = None \<and>
   calculate_rates [(''stot'', 150), (''bin'', 10), (''dreq'', 7)] [(''stot'', 100), (''bin'', 20)] 0 =
     Map.empty"
proof -
  let ?c = "[(''stot'', 150), (''bin'', 10), (''dreq'', 7 :: int)]"
  let ?p = "[(''stot'', 100), (''bin'', 20 :: int)]"
  have all: "\<forall>k. calculate_rates ?c ?p 5 (k @ ''_per_sec'') =
         (case (map_of ?c k, map_of ?p k) of
            (Some c, Some p) \<Rightarrow> if 0 \<le> c - p then Some (real_of_int (c - p) / 5) else None
          | _ \<Rightarrow> None)"
    using calculate_rates_spec [of 5 ?c ?p] by simp
  have zero: "calculate_rates ?c ?p 0 = Map.empty"
    using calculate_rates_spec [of 0 ?c ?p] by simp
  show ?thesis
    using all [rule_format, of "''stot''"] all [rule_format, of "''bin''"]
      all [rule_format, of "''dreq''"] zero
    by simp
qed

lemma sum_fields_keys: "sum_fields parse rows ks = Inr cs \<Longrightarrow> map fst cs = ks"
  by (induction ks arbitrary: cs) (auto split: sum.splits)

lemma aggregate_counters_keys:
  "aggregate_counters parse fs bs = Inr cs \<Longrightarrow> map fst cs = frontend_keys @ [''qcur'']"
  by (auto simp: aggregate_counters_def split: sum.splits dest: sum_fields_keys)

lemma aggregate_haproxy_stats_result:
  assumes "aggregate_haproxy_stats parse a now stamp stats = Inr (res, a')"
  shows "aggregate_counters parse
           (filter (\<lambda>s. map_of s ''svname'' = Some (RStr ''FRONTEND'')) stats)
           (filter (\<lambda>s. map_of s ''svname'' = Some (RStr ''BACKEND'')) stats) =
           Inr (counters res)"
    and "connection_saturation_pct (derived res) =
           (if 0 < counter (counters res) ''slim''
            then real_of_int (counter (counters res) ''scur'') /
                 real_of_int (counter (counters res) ''slim'') * 100
            else 0)"
    and "error_rate_pct (derived res) =
           (if 0 < counter (counters res) ''stot''
            then real_of_int (counter (counters res) ''ereq'') /
                 real_of_int (counter (counters res) ''stot'') * 100
            else 0)"
proof -
  let ?fs = "filter (\<lambda>s. map_of s ''svname'' = Some (RStr ''FRONTEND'')) stats"
  let ?bs = "filter (\<lambda>s. map_of s ''svname'' = Some (RStr ''BACKEND'')) stats"
  obtain current where c: "aggregate_counters parse ?fs ?bs = Inr current"
    using assms by (cases "aggregate_counters parse ?fs ?bs")
      (simp_all add: aggregate_haproxy_stats_def Let_def)
  have r: "counters res = current \<and>
      connection_saturation_pct (derived res) =
        (if 0 < counter current ''slim''
         then real_of_int (counter current ''scur'') / real_of_int (counter current ''slim'') * 100
         else 0) \<and>
      error_rate_pct (derived res) =
        (if 0 < counter current ''stot''
         then real_of_int (counter current ''ereq'') / real_of_int (counter current ''stot'') * 100
         else 0)"
    using assms unfolding aggregate_haproxy_stats_def Let_def c
    by (simp only: sum.case prod.inject sum.inject) (elim conjE, hypsubst, simp)
  from r c show
    "aggregate_counters parse ?fs ?bs = Inr (counters res)"
    "connection_saturation_pct (derived res) =
           (if 0 < counter (counters res) ''slim''
            then real_of_int (counter (counters res) ''scur'') /
                 real_of_int (counter (counters res) ''slim'') * 100
            else 0)"
    "error_rate_pct (derived res) =
           (if 0 < counter (counters res) ''stot''
            then real_of_int (counter (counters res) ''ereq'') /
                 real_of_int (counter (counters res) ''stot'') * 100
            else 0)"
    by simp_all
qed

text \<open>
  C5. In the result of \<open>aggregate_haproxy_stats\<close>, connection saturation is
  \<open>scur / slim * 100\<close> when \<open>slim\<close> is positive and 0 otherwise, and the error rate is
  \<open>ereq / stot * 100\<close> when \<open>stot\<close> is positive and 0 otherwise, over the counters of the
  same result. The counters and the two ratios are the same whatever the aggregator held
  from a previous sample and whatever the clock reads.
\<close>

theorem derived_ratios:
  assumes "aggregate_haproxy_stats parse a now stamp stats = Inr (res, a')"
  shows "connection_saturation_pct (derived res) =
           (if 0 < counter (counters res) ''slim''
            then real_of_int (counter (counters res) ''scur'') /
                 real_of_int (counter (counters res) ''slim'') * 100
            else 0) \<and>
         error_rate_pct (derived res) =
           (if 0 < counter (counters res) ''stot''
            then real_of_int (counter (counters res) ''ereq'') /
                 real_of_int (counter (counters res) ''stot'') * 100
            else 0) \<and>
         map fst (counters res) = frontend_keys @ [''qcur''] \<and>
         (\<forall>a2 now2 stamp2 res2 a2'.
            aggregate_haproxy_stats parse a2 now2 stamp2 stats = Inr (res2, a2') \<longrightarrow>
              counters res2 = counters res \<and>
              connection_saturation_pct (derived res2) = connection_saturation_pct (derived res) \<and>
              error_rate_pct (derived res2) = error_rate_pct (derived res))"
proof -
  note r = aggregate_haproxy_stats_result [OF assms]
  have same: "counters res2 = counters res \<and>
      connection_saturation_pct (derived res2) = connection_saturation_pct (derived res) \<and>
      error_rate_pct (derived res2) = error_rate_pct (derived res)"
    if "aggregate_haproxy_stats parse a2 now2 stamp2 stats = Inr (res2, a2')"
    for a2 now2 stamp2 res2 a2'
  proof -
    note r2 = aggregate_haproxy_stats_result [OF that]
    from r(1) r2(1) have "counters res2 = counters res" by simp
    with r(2,3) r2(2,3) show ?thesis by simp
  qed
  from r(2,3) aggregate_counters_keys [OF r(1)] same show ?thesis
    by blast
qed

theorem derived_ratios_witness:
  "\<exists>res a'.
     aggregate_haproxy_stats (\<lambda>t. if t = ''950'' then Some 950 else None)
       \<lparr>prev_haproxy_stats = None, prev_timestamp = None\<rparr> 100 ''2024-01-01T00:00:00''
       [[(''svname'', RStr ''FRONTEND''), (''scur'', RStr ''950''), (''slim'', RInt 1000)]] =
       Inr (res, a') \<and>
     connection_saturation_pct (derived res) = 95 \<and> error_rate_pct (derived res) = 0"
proof -
  let ?parse = "\<lambda>t. if t = ''950'' then Some (950 :: int) else None"
  let ?a = "\<lparr>prev_haproxy_stats = None, prev_timestamp = None\<rparr>"
  let ?stats = "[[(''svname'', RStr ''FRONTEND''), (''scur'', RStr ''950''), (''slim'', RInt 1000)]]"
  have c: "aggregate_counters ?parse ?stats [] =
      Inr [(''scur'', 950), (''slim'', 1000), (''stot'', 0), (''bin'', 0), (''bout'', 0),
           (''req_tot'', 0), (''ereq'', 0), (''dreq'', 0), (''hrsp_2xx'', 0), (''hrsp_4xx'', 0),
           (''hrsp_5xx'', 0), (''qcur'', 0)]"
    by (simp add: aggregate_counters_def frontend_keys_def int_field_def)
  obtain res a' where r:
    "aggregate_haproxy_stats ?parse ?a 100 ''2024-01-01T00:00:00'' ?stats = Inr (res, a')"
    and cs: "counters res =
      [(''scur'', 950), (''slim'', 1000), (''stot'', 0), (''bin'', 0), (''bout'', 0),
           (''req_tot'', 0), (''ereq'', 0), (''dreq'', 0), (''hrsp_2xx'', 0), (''hrsp_4xx'', 0),
           (''hrsp_5xx'', 0), (''qcur'', 0)]"
    by (simp add: aggregate_haproxy_stats_def Let_def c)
  have "connection_saturation_pct (derived res) = 95 \<and> error_rate_pct (derived res) = 0"
    using derived_ratios [OF r] by (simp add: cs counter_def)
  with r show ?thesis by blast
qed

subsection \<open>Claims about the scheduler\<close>



text \<open>
  C8. After a failure the loop does not wait for the rest of the interval: with an
  interval of 5 seconds and a \<open>collect()\<close> that fails after 2 seconds, the wait is 5
  seconds, not 3.
\<close>

theorem failed_tick_waits_full_interval:
  "loop_body \<lparr>interval = 5, store_func = (\<lambda>d st. Inr (d # st))\<rparr> ''haproxy''
     \<lparr>stop_set = False, started = 0, collected = Inl (Exception ''timed out''), ended = 2\<rparr>
     \<lparr>store = ([] :: nat list), error_log = [], waits = []\<rparr> =
   Inr \<lparr>store = [], error_log = [''Collection error in haproxy: timed out''], waits = [5]\<rparr> \<and>
   [5] \<noteq> [max 0 (5 - (2 - 0 :: real))]"
  by (simp add: loop_body_def on_exception_def)


text \<open>
  C8, amended. After a pass in which \<open>collect()\<close> and the store callback succeed, the loop
  waits \<open>max 0 (interval - elapsed)\<close>, which is 0 when the pass took the interval or longer.
  After a pass in which one of them raises an \<open>Exception\<close>, it waits the whole interval,
  whatever time the pass took.
\<close>

theorem sleep_after_tick:
  "(collected t = Inr data \<and> store_func config data (store s) = Inr st \<longrightarrow>
      (\<exists>s'. loop_body config name t s = Inr s' \<and>
            waits s' = waits s @ [max 0 (interval config - (ended t - started t))] \<and>
            (interval config \<le> ended t - started t \<longrightarrow> waits s' = waits s @ [0]))) \<and>
   (collected t = Inl (Exception m) \<or>
    (collected t = Inr data \<and> store_func config data (store s) = Inl (Exception m)) \<longrightarrow>
      (\<exists>s'. loop_body config name t s = Inr s' \<and> waits s' = waits s @ [interval config]))"
  by (auto simp: loop_body_def on_exception_def Let_def)

theorem sleep_after_tick_witness:
  "(\<exists>s'. loop_body \<lparr>interval = 5, store_func = (\<lambda>d st. Inr (d # st))\<rparr> ''haproxy''
           \<lparr>stop_set = False, started = 10, collected = Inr (3 :: nat), ended = 12\<rparr>
           \<lparr>store = [], error_log = [], waits = []\<rparr> = Inr s' \<and>
         waits s' = [3]) \<and>
   (\<exists>s'. loop_body \<lparr>interval = 5, store_func = (\<lambda>d st. Inr (d # st))\<rparr> ''haproxy''
           \<lparr>stop_set = False, started = 10, collected = Inl (Exception ''timed out''), ended = 12\<rparr>
           \<lparr>store = ([] :: nat list), error_log = [], waits = []\<rparr> = Inr s' \<and>
         waits s' = [5])"
  using sleep_after_tick
    [of "\<lparr>stop_set = False, started = 10, collected = Inr (3 :: nat), ended = 12\<rparr>" 3
      "\<lparr>interval = 5, store_func = (\<lambda>d st. Inr (d # st))\<rparr>"
      "\<lparr>store = [], error_log = [], waits = []\<rparr>" "[3]" "''haproxy''" "''none''"]
    sleep_after_tick
    [of "\<lparr>stop_set = False, started = 10, collected = Inl (Exception ''timed out''), ended = 12\<rparr>"
      "3 :: nat"
      "\<lparr>interval = 5, store_func = (\<lambda>d st. Inr (d # st))\<rparr>"
      "\<lparr>store = [], error_log = [], waits = []\<rparr>" "[3]" "''haproxy''" "''timed out''"]
  by simp

subsection \<open>Claims about the store\<close>

lemma le_fold_max: "x \<in> set xs \<Longrightarrow> x \<le> fold max xs (a :: nat)"
proof (induction xs arbitrary: a)
  case Nil
  then show ?case by simp
next
  case (Cons y ys)
  have mono: "b \<le> fold max ys b" for b :: nat
    by (induction ys arbitrary: b) (auto intro: order_trans [OF max.cobounded2])
  show ?case
  proof (cases "x = y")
    case True
    have "y \<le> max y a" by simp
    also have "\<dots> \<le> fold max ys (max y a)" by (rule mono)
    finally show ?thesis using True by simp
  next
    case False
    with Cons.prems have "x \<in> set ys" by simp
    then show ?thesis by (simp add: Cons.IH)
  qed
qed

lemma next_id_fresh: "next_id rows \<notin> row_id ` set rows"
proof
  assume "next_id rows \<in> row_id ` set rows"
  then have "next_id rows \<in> set (map row_id rows)" by simp
  then have "next_id rows \<le> fold max (map row_id rows) 0" by (rule le_fold_max)
  then show False by (simp add: next_id_def)
qed

lemma insert_stat_rows:
  assumes "insert_stat parse rid stamp amp lb stat rows = Inr rows'"
  shows "\<exists>row. rows' = rows @ [row] \<and> run_id row = rid \<and> timestamp row = stamp \<and>
     raw_data row = stat \<and> row_id row = next_id rows"
  using assms by (auto simp: insert_stat_def Let_def split: if_splits)

lemma insert_stats_rows:
  assumes "insert_stats parse rid stamp amp lb stats rows = Inr rows'"
  shows "map raw_data (filter (\<lambda>row. run_id row = r) rows') =
           map raw_data (filter (\<lambda>row. run_id row = r) rows) @ (if rid = r then stats else []) \<and>
         (distinct (map row_id rows) \<longrightarrow> distinct (map row_id rows'))"
  using assms
proof (induction stats arbitrary: rows)
  case Nil
  then show ?case by simp
next
  case (Cons stat stats)
  from Cons.prems obtain mid where
    m: "insert_stat parse rid stamp amp lb stat rows = Inr mid"
    and rest: "insert_stats parse rid stamp amp lb stats mid = Inr rows'"
    by (auto split: sum.splits)
  from insert_stat_rows [OF m] obtain row where
    row: "mid = rows @ [row]" "run_id row = rid" "raw_data row = stat" "row_id row = next_id rows"
    by blast
  have d: "distinct (map row_id rows) \<longrightarrow> distinct (map row_id mid)"
    using next_id_fresh [of rows] by (simp add: row)
  from Cons.IH [OF rest] d show ?case
    by (auto simp: row)
qed

lemma store_haproxy_stats_rows:
  assumes "store_haproxy_stats parse db stamp rid amp lb stats = Inr db'"
  shows "map raw_data (filter (\<lambda>row. run_id row = r) (haproxy_stats db')) =
           map raw_data (filter (\<lambda>row. run_id row = r) (haproxy_stats db)) @
           (if rid = r then stats else []) \<and>
         (distinct (map row_id (haproxy_stats db)) \<longrightarrow> distinct (map row_id (haproxy_stats db')))"
proof -
  from assms obtain rows where
    i: "insert_stats parse rid stamp amp lb stats (haproxy_stats db) = Inr rows"
    and db': "db' = db\<lparr>haproxy_stats := rows\<rparr>"
    by (auto simp: store_haproxy_stats_def split: sum.splits)
  from insert_stats_rows [OF i, of r] show ?thesis
    by (simp add: db')
qed

lemma store_all_rows:
  assumes "store_all parse db ws = Inr db'"
  shows "map raw_data (filter (\<lambda>row. run_id row = r) (haproxy_stats db')) =
           map raw_data (filter (\<lambda>row. run_id row = r) (haproxy_stats db)) @ written_for r ws \<and>
         (distinct (map row_id (haproxy_stats db)) \<longrightarrow> distinct (map row_id (haproxy_stats db')))"
  using assms
proof (induction parse db ws rule: store_all.induct)
  case (1 parse db)
  then show ?case by simp
next
  case (2 parse db stamp rid amp lb stats ws)
  from "2.prems" obtain mid where
    m: "store_haproxy_stats parse db stamp rid amp lb stats = Inr mid"
    and rest: "store_all parse mid ws = Inr db'"
    by (auto split: sum.splits)
  from "2.IH" [OF m rest] store_haproxy_stats_rows [OF m, of r] show ?case
    by auto
qed

lemma get_all_haproxy_stats:
  "get_haproxy_stats numeric db r None None =
     sort_key timestamp (filter (\<lambda>row. run_id row = r) (haproxy_stats db))"
  by (simp add: get_haproxy_stats_def in_range_def)

text \<open>
  C3. After a sequence of calls of \<open>store_haproxy_stats\<close> that all return, on a table whose
  ids are distinct, reading all rows of a run returns the rows the run had before and one
  row for every record written for the run: the count is the old count plus the number of
  written records, the rows are in ascending order of timestamp, no row occurs twice, and
  the records read are the old ones and the written ones, each as often as it was written.
  On a table that was empty the count is the number of records written for the run.
\<close>

theorem write_then_read_all:
  assumes "store_all parse db ws = Inr db'"
    and "distinct (map row_id (haproxy_stats db))"
  shows "length (get_haproxy_stats numeric db' r None None) =
           length (get_haproxy_stats numeric db r None None) + length (written_for r ws) \<and>
         sorted (map timestamp (get_haproxy_stats numeric db' r None None)) \<and>
         distinct (map row_id (get_haproxy_stats numeric db' r None None)) \<and>
         mset (map raw_data (get_haproxy_stats numeric db' r None None)) =
           mset (map raw_data (get_haproxy_stats numeric db r None None)) + mset (written_for r ws) \<and>
         (haproxy_stats db = [] \<longrightarrow>
            length (get_haproxy_stats numeric db' r None None) = length (written_for r ws))"
proof -
  let ?old = "filter (\<lambda>row. run_id row = r) (haproxy_stats db)"
  let ?new = "filter (\<lambda>row. run_id row = r) (haproxy_stats db')"
  from store_all_rows [OF assms(1), of r] assms(2)
  have raw: "map raw_data ?new = map raw_data ?old @ written_for r ws"
    and ids: "distinct (map row_id (haproxy_stats db'))"
    by simp_all
  have len: "length ?new = length ?old + length (written_for r ws)"
    using arg_cong [OF raw, of length] by simp
  have "distinct (map row_id ?new)"
    using ids by (rule distinct_map_filter)
  moreover have "mset (map row_id (sort_key timestamp ?new)) = mset (map row_id ?new)"
    by simp
  ultimately have d: "distinct (map row_id (sort_key timestamp ?new))"
    using mset_eq_imp_distinct_iff by blast
  have m: "mset (map raw_data (sort_key timestamp ?new)) =
      mset (map raw_data (sort_key timestamp ?old)) + mset (written_for r ws)"
    using arg_cong [OF raw, of mset] by simp
  show ?thesis
    unfolding get_all_haproxy_stats using len d m by simp
qed

theorem write_then_read_all_witness:
  "\<exists>db'. store_all (\<lambda>t. None) \<lparr>haproxy_stats = []\<rparr>
            [(''2024-01-01T00:00:05'', 1, ''amp'', ''lb'', [[(''pxname'', RStr ''a'')], []]),
             (''2024-01-01T00:00:06'', 2, ''amp'', ''lb'', [[]]),
             (''2024-01-01T00:00:01'', 1, ''amp'', ''lb'', [[(''pxname'', RStr ''b'')]])] = Inr db' \<and>
         distinct (map row_id (haproxy_stats \<lparr>haproxy_stats = []\<rparr>)) \<and>
         length (get_haproxy_stats (\<lambda>t. False) db' 1 None None) = 3 \<and>
         sorted (map timestamp (get_haproxy_stats (\<lambda>t. False) db' 1 None None))"
proof -
  let ?ws = "[(''2024-01-01T00:00:05'', 1 :: int, ''amp'', ''lb'', [[(''pxname'', RStr ''a'')], []]),
             (''2024-01-01T00:00:06'', 2, ''amp'', ''lb'', [[]]),
             (''2024-01-01T00:00:01'', 1, ''amp'', ''lb'', [[(''pxname'', RStr ''b'')]])]"
  obtain db' where s: "store_all (\<lambda>t. None) \<lparr>haproxy_stats = []\<rparr> ?ws = Inr db'"
    by (simp add: store_haproxy_stats_def insert_stat_def stat_parameters_def int_columns_def
        int_columns_after_status_def bindable_def int_or_none_def bound_value_def Let_def)
  from write_then_read_all [OF s, of "\<lambda>t. False" 1] s show ?thesis
    by auto
qed

end
